theory Spec2Isabelle
  imports Complex_Main
begin

section \<open>Data model\<close>

text \<open>
  The API of \<^verbatim>\<open>tae/api.py\<close> receives one 2-D numeric array (T rows, D columns) or a
  list or tuple of such arrays. An array is a record of its column count and its rows;
  the row count \<open>shape[0]\<close> is the number of rows. Numbers are exact reals.
\<close>

type_synonym vec = "real list"
type_synonym matrix = "vec list"

record ndarray =
  shape1 :: nat
  rows :: matrix

definition shape0 :: "ndarray \<Rightarrow> nat" where
  "shape0 a = length (rows a)"

text \<open>\<^verbatim>\<open>isinstance(data, (list, tuple))\<close> separates the two forms of the input.\<close>

datatype data = Single ndarray | Multiple "ndarray list"

text \<open>The returned \<open>transformed\<close> value: one array, or a list of arrays.\<close>

datatype result = Array matrix | ArrayList "matrix list"

text \<open>
  The failures of the specification's taxonomy, and the two Python exceptions that the
  API can meet on its own: \<open>IndexError\<close> (\<^verbatim>\<open>data[0]\<close> on an empty list) and
  \<open>ValueError\<close> (a data loader with a batch size below one).
\<close>

datatype error =
    ShapeMismatchError
  | InvalidFractionError
  | SingularCovarianceError
  | DimensionError
  | DegenerateColumnError
  | IndexError
  | ValueError

text \<open>Sequencing of fallible steps: the first failure ends the call.\<close>

definition ebind :: "error + 'a \<Rightarrow> ('a \<Rightarrow> error + 'b) \<Rightarrow> error + 'b" where
  "ebind m f = (case m of Inl e \<Rightarrow> Inl e | Inr x \<Rightarrow> f x)"

type_synonym sample = "vec \<times> vec"
type_synonym dataset = "sample list"
type_synonym batch = "sample list"

section \<open>Configuration of the autoencoder (api.py, lines 143-152)\<close>

text \<open>
  The keyword arguments of \<open>ae\<close> are a Python dictionary from names to objects.
  The objects that occur among the defaults are modelled by a datatype of values;
  \<open>PyOther\<close> stands for any other object a caller may pass.
\<close>

datatype pyval =
    PyNone
  | PyBool bool
  | PyFloat real
  | PyIntList "int list"
  | Dropout real
  | LeakyReLU
  | PyOther string

type_synonym kwargs = "string \<rightharpoonup> pyval"

text \<open>\<^verbatim>\<open>ae_args = dict(hid_size=[100], dropout=Dropout(p=0.5), ...)\<close>\<close>

definition ae_defaults :: kwargs where
  "ae_defaults =
     [''hid_size'' \<mapsto> PyIntList [100],
      ''dropout'' \<mapsto> Dropout (1/2),
      ''activation'' \<mapsto> LeakyReLU,
      ''lat_activation'' \<mapsto> PyNone,
      ''batch_normalization'' \<mapsto> PyNone,
      ''bias'' \<mapsto> PyBool True,
      ''lr'' \<mapsto> PyFloat (1/1000),
      ''cuda'' \<mapsto> PyBool False]"

text \<open>\<^verbatim>\<open>ae_args.update(kwargs)\<close>: every key of \<open>kwargs\<close> is written into the dictionary.\<close>

definition ae_args :: "kwargs \<Rightarrow> kwargs" where
  "ae_args kw = ae_defaults ++ kw"

text \<open>The option names that the specification lists as recognized.\<close>

definition recognized_options :: "string set" where
  "recognized_options =
     {''hid_size'', ''dropout'', ''activation'', ''lat_activation'',
      ''batch_normalization'', ''bias'', ''lr'', ''cuda''}"

section \<open>Input width of the encoder (api.py, lines 153-156)\<close>

text \<open>
  \<^verbatim>\<open>try: size = data.shape[1]
  except AttributeError: size = data[0].shape[1]\<close>
  A list or tuple has no attribute \<open>shape\<close>, so the fallback reads the first series;
  on an empty list \<^verbatim>\<open>data[0]\<close> raises \<open>IndexError\<close>.
\<close>

definition ae_size :: "data \<Rightarrow> error + nat" where
  "ae_size d =
     (case d of
        Single a \<Rightarrow> Inr (shape1 a)
      | Multiple [] \<Rightarrow> Inl IndexError
      | Multiple (a # _) \<Rightarrow> Inr (shape1 a))"

section \<open>Dataset builder, batch iterator, splitter, whitening\<close>

text \<open>
  \<open>create_dataset\<close>, \<open>random_split\<close> and \<open>whiten_data\<close> live in \<^verbatim>\<open>tae/utils.py\<close>, and
  the estimators in \<^verbatim>\<open>tae/models.py\<close>; the data loader is the one of the tensor library.
  The API file only calls them, so they are modelled from the specification.
\<close>

text \<open>
  Modelled from the spec: the window of one series (part of \<open>create_dataset\<close>, missing).
  Pairs \<open>(x_t, x_{t+lag})\<close> for \<open>t\<close> in \<open>[0, T - lag)\<close>, in temporal order; a series
  not longer than \<open>lag\<close> gives no pair.
\<close>

definition lagged_pairs :: "nat \<Rightarrow> matrix \<Rightarrow> dataset" where
  "lagged_pairs lag xs = zip xs (drop lag xs)"

text \<open>
  Modelled from the spec: \<open>create_dataset\<close> (missing, Dataset Builder of section 4.1).
  Each series is windowed on its own, series order first and temporal order within a
  series; it fails with \<open>ShapeMismatchError\<close> when the series disagree on the column
  count.
\<close>

definition create_dataset :: "data \<Rightarrow> nat \<Rightarrow> error + dataset" where
  "create_dataset d lag =
     (case d of
        Single a \<Rightarrow> Inr (lagged_pairs lag (rows a))
      | Multiple ds \<Rightarrow>
          if list_all (\<lambda>a. shape1 a = shape1 (hd ds)) ds
          then Inr (concat (map (\<lambda>a. lagged_pairs lag (rows a)) ds))
          else Inl ShapeMismatchError)"

text \<open>
  Modelled from the spec: the Batch Iterator of section 4.3 (\<open>DataLoader\<close> of the tensor
  library, called without a shuffle flag and without workers). A loader keeps the
  dataset and the batch size; a pass over it cuts the dataset, in its order, into
  groups of \<open>B\<close> consecutive samples, the last one possibly shorter. A pass is a function
  of the loader alone, so every pass yields the same batches. The library rejects a
  batch size below one with \<open>ValueError\<close>.
\<close>

function chunks :: "nat \<Rightarrow> 'a list \<Rightarrow> 'a list list" where
  "chunks B xs = (if B = 0 \<or> xs = [] then [] else take B xs # chunks B (drop B xs))"
  by pat_completeness auto
termination
  by (relation "measure (\<lambda>(B, xs). length xs)") auto

record loader =
  ld_dataset :: dataset
  ld_batch_size :: nat

definition DataLoader :: "dataset \<Rightarrow> nat \<Rightarrow> error + loader" where
  "DataLoader ds batch_size =
     (if batch_size = 0 then Inl ValueError
      else Inr \<lparr>ld_dataset = ds, ld_batch_size = batch_size\<rparr>)"

definition batches :: "loader \<Rightarrow> batch list" where
  "batches l = chunks (ld_batch_size l) (ld_dataset l)"

text \<open>
  Modelled from the spec: \<open>random_split\<close> (missing, Splitter of section 4.2). The random
  draw is the argument \<open>perm\<close>, a permutation of the indices \<open>0..<N\<close>; the split cuts it
  after \<open>round (f * N)\<close> indices (a tie is rounded upwards), validation first. A subset
  is the base dataset with a list of indices into it. The split fails with \<open>InvalidFractionError\<close> when \<open>f\<close> is not
  strictly between 0 and 1, or when one of the two parts would be empty (the API hands
  both to the estimator).
\<close>

record subset =
  base :: dataset
  indices :: "nat list"

definition subset_items :: "subset \<Rightarrow> dataset" where
  "subset_items s = map (\<lambda>i. base s ! i) (indices s)"

definition n_active :: "real \<Rightarrow> nat \<Rightarrow> nat" where
  "n_active f N = nat (round (f * real N))"

definition random_split :: "nat list \<Rightarrow> dataset \<Rightarrow> real \<Rightarrow> error + (subset \<times> subset)" where
  "random_split perm ds f =
     (let N = length ds; k = n_active f N in
      if f \<le> 0 \<or> 1 \<le> f \<or> k = 0 \<or> N \<le> k then Inl InvalidFractionError
      else Inr (\<lparr>base = ds, indices = take k perm\<rparr>, \<lparr>base = ds, indices = drop k perm\<rparr>))"

text \<open>
  Modelled from the spec: \<open>whiten_data\<close> (missing, Whitening Post-processor of section
  4.7). Each column of the matrix is divided by its standard deviation, the square
  root of its sample variance. The policy chosen for a column without variance is the
  failure \<open>DegenerateColumnError\<close>.
\<close>

definition column :: "nat \<Rightarrow> matrix \<Rightarrow> vec" where
  "column j t = map (\<lambda>r. r ! j) t"

definition avg :: "vec \<Rightarrow> real" where
  "avg xs = sum_list xs / real (length xs)"

definition sample_variance :: "vec \<Rightarrow> real" where
  "sample_variance xs = sum_list (map (\<lambda>x. (x - avg xs)\<^sup>2) xs) / real (length xs - 1)"

definition std :: "vec \<Rightarrow> real" where
  "std xs = sqrt (sample_variance xs)"

definition width :: "matrix \<Rightarrow> nat" where
  "width t = (case t of [] \<Rightarrow> 0 | r # _ \<Rightarrow> length r)"

definition stds :: "matrix \<Rightarrow> vec" where
  "stds t = map (\<lambda>j. std (column j t)) [0..<width t]"

definition whiten_data :: "matrix \<Rightarrow> error + matrix" where
  "whiten_data t =
     (let s = stds t in
      if list_ex (\<lambda>v. v = 0) s then Inl DegenerateColumnError
      else Inr (map (\<lambda>r. map2 (/) r s) t))"

section \<open>Vectors and matrices\<close>

text \<open>
  Modelled from the spec: the arithmetic of \<open>(x - mean) \<cdot> projection\<close> and of the
  symmetrization \<open>(C + C^T) / 2\<close> (parts of the missing estimators, sections 4.4 and
  4.5). Vectors and matrices are added position by position. The empty list is the
  zero accumulator, so the addition keeps the longer tail; on operands of one shape,
  the only case that a dataset with one column count produces, it is the usual sum.
\<close>

fun padd :: "('a \<Rightarrow> 'a \<Rightarrow> 'a) \<Rightarrow> 'a list \<Rightarrow> 'a list \<Rightarrow> 'a list" where
  "padd f [] ys = ys"
| "padd f xs [] = xs"
| "padd f (x # xs) (y # ys) = f x y # padd f xs ys"

definition vadd :: "vec \<Rightarrow> vec \<Rightarrow> vec" where
  "vadd = padd (+)"

definition madd :: "matrix \<Rightarrow> matrix \<Rightarrow> matrix" where
  "madd = padd vadd"

definition vsum :: "vec list \<Rightarrow> vec" where
  "vsum vs = foldl vadd [] vs"

definition vsub :: "vec \<Rightarrow> vec \<Rightarrow> vec" where
  "vsub x mu = map2 (-) x mu"

definition vscale :: "real \<Rightarrow> vec \<Rightarrow> vec" where
  "vscale c v = map ((*) c) v"

definition mscale :: "real \<Rightarrow> matrix \<Rightarrow> matrix" where
  "mscale c m = map (vscale c) m"

definition symmetrize_m :: "matrix \<Rightarrow> matrix" where
  "symmetrize_m C = mscale (1/2) (madd C (transpose C))"

section \<open>Linear estimators\<close>

text \<open>
  Modelled from the spec: the state of a fitted \<open>PCA\<close> or \<open>TICA\<close> model and its
  \<open>transform\<close> (missing, sections 3 and 4.4): a mean vector and a projection matrix with
  one row per input column; \<open>transform\<close> maps every sample \<open>x_t\<close> to
  \<open>(x_t - mean) \<cdot> projection\<close>, batch after batch, in the order of the loader. A sample
  whose width is not the model's is a \<open>ShapeMismatchError\<close>.
\<close>

record linear_model =
  mean :: vec
  projection :: matrix

definition vec_mat :: "vec \<Rightarrow> matrix \<Rightarrow> vec" where
  "vec_mat v P = vsum (map2 vscale v P)"

definition project :: "linear_model \<Rightarrow> vec \<Rightarrow> vec" where
  "project m x = vec_mat (vsub x (mean m)) (projection m)"

definition linear_transform :: "linear_model \<Rightarrow> loader \<Rightarrow> error + matrix" where
  "linear_transform m l =
     (if list_all (list_all (\<lambda>(x, y). length x = length (mean m))) (batches l)
      then Inr (concat (map (map (\<lambda>(x, y). project m x)) (batches l)))
      else Inl ShapeMismatchError)"

definition keep :: "nat option \<Rightarrow> 'a list \<Rightarrow> 'a list" where
  "keep tdim pairs = (case tdim of None \<Rightarrow> pairs | Some k \<Rightarrow> take k pairs)"

text \<open>
  Modelled from the spec: \<open>PCA.fit\<close> (missing, section 4.4). The numerical kernels are
  arguments. \<open>pca_mean\<close> and \<open>pca_cov\<close> accumulate, over the batches of a loader, the
  mean of \<open>x_t\<close> and the covariance \<open>E[(x - mean)(x - mean)^T]\<close>; the program adds up
  floating-point tensors batch by batch, and what such a sum rounds to depends on the
  grouping into batches, so the accumulators receive the batches as they are and
  nothing is assumed about them. \<open>eigh\<close> returns the eigenpairs of a symmetric matrix,
  and \<open>pca_score\<close> is the validation loss, "computed analogously", of a projection on
  the covariance accumulated over the test loader. The fit accumulates mean and
  covariance, symmetrizes the covariance, orders the eigenpairs by decreasing
  eigenvalue, retains \<open>dim\<close> of them (all when \<open>dim\<close> is unset), and reports the
  negative sum of the retained eigenvalues as training loss. Without a test loader the
  validation loss is absent.
\<close>

record pca_kernel =
  pca_mean :: "batch list \<Rightarrow> vec"
  pca_cov :: "vec \<Rightarrow> batch list \<Rightarrow> matrix"
  eigh :: "matrix \<Rightarrow> (real \<times> vec) list"
  pca_score :: "matrix \<Rightarrow> matrix \<Rightarrow> real"

definition PCA_fit ::
  "pca_kernel \<Rightarrow> loader \<Rightarrow> nat option \<Rightarrow> loader option
     \<Rightarrow> error + (linear_model \<times> real \<times> real option)" where
  "PCA_fit K train_loader tdim test_loader =
     (let bs = batches train_loader;
          mu = pca_mean K bs;
          C = symmetrize_m (pca_cov K mu bs);
          kept = keep tdim (sort_key (\<lambda>(ev, v). - ev) (eigh K C));
          m = \<lparr>mean = mu, projection = transpose (map snd kept)\<rparr>;
          train_loss = - sum_list (map fst kept);
          test_loss =
            (case test_loader of
               None \<Rightarrow> None
             | Some t \<Rightarrow>
                 Some (pca_score K (projection m) (symmetrize_m (pca_cov K mu (batches t)))))
      in Inr (m, train_loss, test_loss))"

text \<open>
  Modelled from the spec: \<open>TICA.fit\<close> (missing, section 4.5). The kernels \<open>tica_mean\<close>,
  \<open>tica_cov\<close> and \<open>tica_xcov\<close> accumulate, over the batches of a loader, the mean, the
  instantaneous covariance \<open>C00\<close> and the time-lagged cross-covariance
  \<open>C01 = E[(x_t - mean)(x_{t+lag} - mean)^T]\<close>, as the accumulators of \<open>PCA.fit\<close> do.
  The kernel \<open>geig\<close> solves the generalized eigenproblem \<open>C01 v = \<lambda> C00 v\<close> (with the symmetric solver when
  \<open>symmetrize\<close> is set) and fails with \<open>SingularCovarianceError\<close> on a singular \<open>C00\<close>;
  \<open>tica_score\<close> is the loss of a projection on the statistics of a loader, which the
  specification does not spell out. The eigenpairs are ordered by decreasing
  magnitude; the kinetic map scales every retained eigenvector by its eigenvalue.
\<close>

record tica_kernel =
  tica_mean :: "batch list \<Rightarrow> vec"
  tica_cov :: "vec \<Rightarrow> batch list \<Rightarrow> matrix"
  tica_xcov :: "vec \<Rightarrow> batch list \<Rightarrow> matrix"
  geig :: "bool \<Rightarrow> matrix \<Rightarrow> matrix \<Rightarrow> error + (real \<times> vec) list"
  tica_score :: "matrix \<Rightarrow> matrix \<Rightarrow> matrix \<Rightarrow> real"

definition lagged_cov :: "tica_kernel \<Rightarrow> bool \<Rightarrow> vec \<Rightarrow> batch list \<Rightarrow> matrix" where
  "lagged_cov K symmetrize mu bs =
     (if symmetrize then symmetrize_m (tica_xcov K mu bs) else tica_xcov K mu bs)"

definition TICA_fit ::
  "tica_kernel \<Rightarrow> bool \<Rightarrow> bool \<Rightarrow> loader \<Rightarrow> nat option \<Rightarrow> loader option
     \<Rightarrow> error + (linear_model \<times> real \<times> real option)" where
  "TICA_fit K kinetic_map symmetrize train_loader tdim test_loader =
     (let bs = batches train_loader;
          mu = tica_mean K bs;
          C00 = tica_cov K mu bs;
          C01 = lagged_cov K symmetrize mu bs
      in ebind (geig K symmetrize C00 C01) (\<lambda>pairs.
         let kept = keep tdim (sort_key (\<lambda>(ev, v). - \<bar>ev\<bar>) pairs);
             vecs = map (\<lambda>(ev, v). if kinetic_map then vscale ev v else v) kept;
             m = \<lparr>mean = mu, projection = transpose vecs\<rparr>;
             train_loss = tica_score K (projection m) C00 C01;
             test_loss =
               (case test_loader of
                  None \<Rightarrow> None
                | Some t \<Rightarrow>
                    Some (tica_score K (projection m) (tica_cov K mu (batches t))
                            (lagged_cov K symmetrize mu (batches t))))
         in Inr (m, train_loss, test_loss)))"

section \<open>Autoencoder estimator\<close>

text \<open>
  Modelled from the spec: the \<open>AE\<close> model, its \<open>fit\<close> and its \<open>transform\<close> (missing,
  section 4.6). The network is a kernel over a type of parameters: \<open>ae_init\<close> builds
  the parameters from the input width, the latent dimension and the configuration;
  \<open>ae_step\<close> is one gradient update on a batch and returns the batch loss; \<open>ae_loss\<close>
  evaluates a batch without update; \<open>ae_encode\<close> is the encoder stage on one sample;
  \<open>ae_reduce\<close> combines the batch losses of one pass into the reported loss. The fit
  runs \<open>n_epochs\<close> passes over all training batches, reports the loss of the final
  epoch, and the validation loss over the test loader when there is one. A sample
  whose width is not the configured input width is a \<open>DimensionError\<close>.
\<close>

record 'p ae_kernel =
  ae_init :: "nat \<Rightarrow> nat option \<Rightarrow> kwargs \<Rightarrow> error + 'p"
  ae_step :: "'p \<Rightarrow> batch \<Rightarrow> 'p \<times> real"
  ae_loss :: "'p \<Rightarrow> batch \<Rightarrow> real"
  ae_encode :: "'p \<Rightarrow> vec \<Rightarrow> vec"
  ae_reduce :: "real list \<Rightarrow> real"

record 'p ae_model =
  in_size :: nat
  params :: 'p

definition AE :: "'p ae_kernel \<Rightarrow> nat \<Rightarrow> nat option \<Rightarrow> kwargs \<Rightarrow> error + 'p ae_model" where
  "AE K sz tdim args =
     ebind (ae_init K sz tdim args) (\<lambda>p. Inr \<lparr>in_size = sz, params = p\<rparr>)"

fun epoch :: "('p \<Rightarrow> batch \<Rightarrow> 'p \<times> real) \<Rightarrow> 'p \<Rightarrow> batch list \<Rightarrow> 'p \<times> real list" where
  "epoch step p [] = (p, [])"
| "epoch step p (b # bs) =
     (let (p', l) = step p b; (p'', ls) = epoch step p' bs in (p'', l # ls))"

fun epochs ::
  "('p \<Rightarrow> batch \<Rightarrow> 'p \<times> real) \<Rightarrow> batch list \<Rightarrow> nat \<Rightarrow> 'p \<times> real list \<Rightarrow> 'p \<times> real list" where
  "epochs step bs 0 st = st"
| "epochs step bs (Suc n) st = epochs step bs n (epoch step (fst st) bs)"

definition fits_width :: "nat \<Rightarrow> loader \<Rightarrow> bool" where
  "fits_width n l = list_all (\<lambda>(x, y). length x = n) (ld_dataset l)"

definition AE_fit ::
  "'p ae_kernel \<Rightarrow> 'p ae_model \<Rightarrow> loader \<Rightarrow> nat \<Rightarrow> loader option
     \<Rightarrow> error + ('p ae_model \<times> real \<times> real option)" where
  "AE_fit K m train_loader n_epochs test_loader =
     (if \<not> fits_width (in_size m) train_loader
         \<or> (case test_loader of None \<Rightarrow> False | Some t \<Rightarrow> \<not> fits_width (in_size m) t)
      then Inl DimensionError
      else
        let st = epochs (ae_step K) (batches train_loader) n_epochs (params m, []);
            train_loss = ae_reduce K (snd st);
            test_loss =
              (case test_loader of
                 None \<Rightarrow> None
               | Some t \<Rightarrow> Some (ae_reduce K (map (ae_loss K (fst st)) (batches t))))
        in Inr (m\<lparr>params := fst st\<rparr>, train_loss, test_loss))"

definition AE_transform :: "'p ae_kernel \<Rightarrow> 'p ae_model \<Rightarrow> loader \<Rightarrow> error + matrix" where
  "AE_transform K m l =
     (if fits_width (in_size m) l
      then Inr (concat (map (map (\<lambda>(x, y). ae_encode K (params m) x)) (batches l)))
      else Inl DimensionError)"

section \<open>Result reassembly (api.py, lines 31-45)\<close>

text \<open>
  The loop of \<open>_transform\<close>:
  \<^verbatim>\<open>for length in lengths:
      collect.append(transformed_data[p:p+length, :])
      p += length\<close>
  A slice that reaches beyond the array is cut at its end, as \<open>take\<close> and \<open>drop\<close> do.
\<close>

fun collect :: "matrix \<Rightarrow> nat \<Rightarrow> nat list \<Rightarrow> matrix list" where
  "collect transformed_data p [] = []"
| "collect transformed_data p (l # lengths) =
     take l (drop p transformed_data) # collect transformed_data (p + l) lengths"

text \<open>
  \<open>_transform(model, data, data_0, batch_size, whiten)\<close>; the argument \<open>model\<close> is used
  through its method \<open>transform\<close> only, which is what the embedding receives. Lines
  32-36 compute the array \<open>transformed_data\<close>:
  \<^verbatim>\<open>loader = DataLoader(data_0, batch_size=batch_size)
  if whiten:
      transformed_data = whiten_data(model.transform(loader)).numpy()
  else:
      transformed_data = model.transform(loader).numpy()\<close>
  and lines 37-45 return it, sliced when \<open>data\<close> is a list or tuple.
\<close>

definition transformed_data ::
  "(loader \<Rightarrow> error + matrix) \<Rightarrow> dataset \<Rightarrow> nat \<Rightarrow> bool \<Rightarrow> error + matrix" where
  "transformed_data model_transform data_0 batch_size whiten =
     ebind (DataLoader data_0 batch_size) (\<lambda>loader.
       if whiten then ebind (model_transform loader) whiten_data
       else model_transform loader)"

definition api_transform ::
  "(loader \<Rightarrow> error + matrix) \<Rightarrow> data \<Rightarrow> dataset \<Rightarrow> nat \<Rightarrow> bool \<Rightarrow> error + result" where
  "api_transform model_transform d data_0 batch_size whiten =
     ebind (transformed_data model_transform data_0 batch_size whiten) (\<lambda>t.
       case d of
         Multiple ds \<Rightarrow> Inr (ArrayList (collect t 0 (map shape0 ds)))
       | Single a \<Rightarrow> Inr (Array t))"

section \<open>The three entry points (api.py, lines 47-171)\<close>

text \<open>
  The block that \<open>pca\<close>, \<open>tica\<close> and \<open>ae\<close> share (lines 67-74, 107-114 and 159-166):
  \<^verbatim>\<open>if validation_split is None:
      train_loader = DataLoader(ds, batch_size=batch_size)
      test_loader = None
  else:
      data_test, data_train = random_split(ds, f_active=validation_split)
      train_loader = DataLoader(data_train, batch_size=batch_size)
      test_loader = DataLoader(data_test, batch_size=batch_size)\<close>
  The result is the pair \<open>(train_loader, test_loader)\<close>.
\<close>

definition make_loaders ::
  "nat list \<Rightarrow> dataset \<Rightarrow> real option \<Rightarrow> nat \<Rightarrow> error + (loader \<times> loader option)" where
  "make_loaders perm ds validation_split batch_size =
     (case validation_split of
        None \<Rightarrow>
          ebind (DataLoader ds batch_size) (\<lambda>train_loader. Inr (train_loader, None))
      | Some f \<Rightarrow>
          ebind (random_split perm ds f) (\<lambda>(data_test, data_train).
          ebind (DataLoader (subset_items data_train) batch_size) (\<lambda>train_loader.
          ebind (DataLoader (subset_items data_test) batch_size) (\<lambda>test_loader.
          Inr (train_loader, Some test_loader)))))"

text \<open>
  \<open>pca(data, dim, validation_split, batch_size, whiten)\<close>. The kernel of the estimator
  and the random draw of the splitter are explicit arguments. The defaults of the
  Python signatures (\<open>dim=None\<close>, \<open>lag=1\<close>, \<open>validation_split=None\<close>, \<open>batch_size=100\<close>,
  \<open>whiten=False\<close>, ...) are values the caller passes here. The arguments \<open>dim\<close> and
  \<open>size\<close> of the source are written \<open>tdim\<close> and \<open>sz\<close>, and \<open>_transform\<close> is written
  \<open>api_transform\<close>, since the source's names are not available as identifiers.
\<close>

definition pca ::
  "pca_kernel \<Rightarrow> nat list \<Rightarrow> data \<Rightarrow> nat option \<Rightarrow> real option \<Rightarrow> nat \<Rightarrow> bool
     \<Rightarrow> error + (result \<times> real \<times> real option)" where
  "pca K perm d tdim validation_split batch_size whiten =
     ebind (create_dataset d 0) (\<lambda>data_0.
     ebind (make_loaders perm data_0 validation_split batch_size) (\<lambda>(train_loader, test_loader).
     ebind (PCA_fit K train_loader tdim test_loader) (\<lambda>(model, train_loss, test_loss).
     ebind (api_transform (linear_transform model) d data_0 batch_size whiten)
       (\<lambda>transformed_data.
     Inr (transformed_data, train_loss, test_loss)))))"

text \<open>
  \<open>tica(data, dim, lag, kinetic_map, symmetrize, validation_split, batch_size, whiten)\<close>
\<close>

definition tica ::
  "tica_kernel \<Rightarrow> nat list \<Rightarrow> data \<Rightarrow> nat option \<Rightarrow> nat \<Rightarrow> bool \<Rightarrow> bool \<Rightarrow> real option
     \<Rightarrow> nat \<Rightarrow> bool \<Rightarrow> error + (result \<times> real \<times> real option)" where
  "tica K perm d tdim lag kinetic_map symmetrize validation_split batch_size whiten =
     ebind (create_dataset d 0) (\<lambda>data_0.
     ebind (create_dataset d lag) (\<lambda>data_lag.
     ebind (make_loaders perm data_lag validation_split batch_size)
       (\<lambda>(train_loader, test_loader).
     ebind (TICA_fit K kinetic_map symmetrize train_loader tdim test_loader)
       (\<lambda>(model, train_loss, test_loss).
     ebind (api_transform (linear_transform model) d data_0 batch_size whiten)
       (\<lambda>transformed_data.
     Inr (transformed_data, train_loss, test_loss))))))"

text \<open>
  \<open>ae(data, dim, lag, n_epochs, validation_split, batch_size, whiten, **kwargs)\<close>
\<close>

definition ae ::
  "'p ae_kernel \<Rightarrow> nat list \<Rightarrow> data \<Rightarrow> nat option \<Rightarrow> nat \<Rightarrow> nat \<Rightarrow> real option
     \<Rightarrow> nat \<Rightarrow> bool \<Rightarrow> kwargs \<Rightarrow> error + (result \<times> real \<times> real option)" where
  "ae K perm d tdim lag n_epochs validation_split batch_size whiten kw =
     ebind (ae_size d) (\<lambda>sz.
     ebind (create_dataset d 0) (\<lambda>data_0.
     ebind (create_dataset d lag) (\<lambda>data_lag.
     ebind (make_loaders perm data_lag validation_split batch_size)
       (\<lambda>(train_loader, test_loader).
     ebind (AE K sz tdim (ae_args kw)) (\<lambda>model.
     ebind (AE_fit K model train_loader n_epochs test_loader)
       (\<lambda>(model', train_loss, test_loss).
     ebind (api_transform (AE_transform K model') d data_0 batch_size whiten)
       (\<lambda>transformed_data.
     Inr (transformed_data, train_loss, test_loss))))))))"

section \<open>Vocabulary of the properties\<close>

text \<open>The lengths \<open>T_1, ..., T_k\<close> of the input series, and all observations in input order.\<close>

definition series_lengths :: "data \<Rightarrow> nat list" where
  "series_lengths d = (case d of Single a \<Rightarrow> [shape0 a] | Multiple ds \<Rightarrow> map shape0 ds)"

definition all_rows :: "data \<Rightarrow> matrix" where
  "all_rows d = (case d of Single a \<Rightarrow> rows a | Multiple ds \<Rightarrow> concat (map rows ds))"

text \<open>The row counts of the arrays of a result.\<close>

definition row_counts :: "result \<Rightarrow> nat list" where
  "row_counts r = (case r of Array t \<Rightarrow> [length t] | ArrayList ts \<Rightarrow> map length ts)"

text \<open>
  The Result Reassembler in the words of the specification: for a list of series the
  \<open>i\<close>-th array is the slice of the concatenated output that starts at the offset
  \<open>T_1 + ... + T_{i-1}\<close> and has \<open>T_i\<close> rows; for a single series the output itself.
\<close>

definition offset :: "nat list \<Rightarrow> nat \<Rightarrow> nat" where
  "offset ls i = sum_list (take i ls)"

definition reassemble :: "data \<Rightarrow> matrix \<Rightarrow> result" where
  "reassemble d t =
     (case d of
        Single a \<Rightarrow> Array t
      | Multiple ds \<Rightarrow>
          ArrayList (map (\<lambda>i. take (shape0 (ds ! i)) (drop (offset (map shape0 ds) i) t))
                       [0..<length ds]))"

text \<open>A random draw of the splitter for \<open>N\<close> samples: a permutation of the indices.\<close>

definition is_permutation :: "nat list \<Rightarrow> nat \<Rightarrow> bool" where
  "is_permutation perm N \<longleftrightarrow> distinct perm \<and> set perm = {0..<N}"

text \<open>The input with a function applied to every observation, in place.\<close>

definition map_rows :: "(vec \<Rightarrow> vec) \<Rightarrow> data \<Rightarrow> result" where
  "map_rows g d =
     (case d of
        Single a \<Rightarrow> Array (map g (rows a))
      | Multiple ds \<Rightarrow> ArrayList (map (\<lambda>a. map g (rows a)) ds))"

section \<open>A worked example\<close>

text \<open>
  Two series with one column, of lengths 3 and 2, the first of them also as a single
  input, and kernels for data with one column: the mean and the (cross-)covariance of
  the one column over all samples of the batches, the eigenpair \<open>(c, [1])\<close> of a 1 x 1
  matrix \<open>[[c]]\<close>, and the generalized eigenvalue \<open>c1 / c0\<close> of \<open>[[c1]]\<close> against
  \<open>[[c0]]\<close>. The autoencoder kernel is the smallest network with a state: its only
  parameter counts the gradient updates made so far, and its encoder shifts a sample by
  that count.
\<close>

definition ex_series_a :: ndarray where
  "ex_series_a = \<lparr>shape1 = 1, rows = [[2], [-2], [2]]\<rparr>"

definition ex_series_b :: ndarray where
  "ex_series_b = \<lparr>shape1 = 1, rows = [[-2], [0]]\<rparr>"

definition ex_data :: data where
  "ex_data = Multiple [ex_series_a, ex_series_b]"

definition ex_single :: data where
  "ex_single = Single ex_series_a"

definition ex_mean :: "batch list \<Rightarrow> vec" where
  "ex_mean bs = [avg (map (\<lambda>(x, y). sum_list x) (concat bs))]"

definition ex_cov :: "vec \<Rightarrow> batch list \<Rightarrow> matrix" where
  "ex_cov mu bs =
     [[avg (map (\<lambda>(x, y). (sum_list x - sum_list mu) * (sum_list x - sum_list mu))
              (concat bs))]]"

definition ex_xcov :: "vec \<Rightarrow> batch list \<Rightarrow> matrix" where
  "ex_xcov mu bs =
     [[avg (map (\<lambda>(x, y). (sum_list x - sum_list mu) * (sum_list y - sum_list mu))
              (concat bs))]]"

definition ex_pca_kernel :: pca_kernel where
  "ex_pca_kernel =
     \<lparr>pca_mean = ex_mean,
      pca_cov = ex_cov,
      eigh = (\<lambda>C. case C of [[c]] \<Rightarrow> [(c, [1])] | _ \<Rightarrow> []),
      pca_score = (\<lambda>P C. case (P, C) of ([[p]], [[c]]) \<Rightarrow> - (p * c * p) | _ \<Rightarrow> 0)\<rparr>"

definition ex_tica_kernel :: tica_kernel where
  "ex_tica_kernel =
     \<lparr>tica_mean = ex_mean,
      tica_cov = ex_cov,
      tica_xcov = ex_xcov,
      geig = (\<lambda>sym C00 C01. case (C00, C01) of
                ([[c0]], [[c1]]) \<Rightarrow>
                  if c0 = 0 then Inl SingularCovarianceError else Inr [(c1 / c0, [1])]
              | _ \<Rightarrow> Inl SingularCovarianceError),
      tica_score = (\<lambda>P C00 C01. case (C00, C01) of
                ([[c0]], [[c1]]) \<Rightarrow> - (c1 / c0)
              | _ \<Rightarrow> 0)\<rparr>"

definition counting_kernel :: "nat ae_kernel" where
  "counting_kernel =
     \<lparr>ae_init = (\<lambda>sz tdim args. case tdim of None \<Rightarrow> Inl DimensionError | Some k \<Rightarrow> Inr 0),
      ae_step = (\<lambda>p b. (Suc p, real (length b))),
      ae_loss = (\<lambda>p b. real (length b)),
      ae_encode = (\<lambda>p x. map (\<lambda>v. v + real p) x),
      ae_reduce = sum_list\<rparr>"

text \<open>The datasets of the example for lag 0 and lag 1.\<close>

definition ex_data_0 :: dataset where
  "ex_data_0 = [([2], [2]), ([-2], [-2]), ([2], [2]), ([-2], [-2]), ([0], [0])]"

definition ex_data_lag :: dataset where
  "ex_data_lag = [([2], [-2]), ([-2], [2]), ([-2], [0])]"

definition ex_single_0 :: dataset where
  "ex_single_0 = [([2], [2]), ([-2], [-2]), ([2], [2])]"

text \<open>The fitted linear models of the runs without a split.\<close>

definition ex_pca_model :: linear_model where
  "ex_pca_model = \<lparr>mean = [0], projection = [[1]]\<rparr>"

definition ex_tica_model :: linear_model where
  "ex_tica_model = \<lparr>mean = [-(2/3)], projection = [[-(3/4)]]\<rparr>"

definition ex_pca_model_single :: linear_model where
  "ex_pca_model_single = \<lparr>mean = [2/3], projection = [[1]]\<rparr>"

text \<open>
  Two random draws of the splitter, for five and for three samples, and the parts
  they select for the fraction 2/5; the fitted linear models of the runs with a split.
\<close>

definition ex_perm_5 :: "nat list" where
  "ex_perm_5 = [3, 1, 4, 0, 2]"

definition ex_perm_3 :: "nat list" where
  "ex_perm_3 = [2, 0, 1]"

definition ex_train_0 :: dataset where
  "ex_train_0 = [([0], [0]), ([2], [2]), ([2], [2])]"

definition ex_test_0 :: dataset where
  "ex_test_0 = [([-2], [-2]), ([-2], [-2])]"

definition ex_train_lag :: dataset where
  "ex_train_lag = [([2], [-2]), ([-2], [2])]"

definition ex_test_lag :: dataset where
  "ex_test_lag = [([-2], [0])]"

definition ex_pca_model_split :: linear_model where
  "ex_pca_model_split = \<lparr>mean = [4/3], projection = [[1]]\<rparr>"

definition ex_tica_model_split :: linear_model where
  "ex_tica_model_split = \<lparr>mean = [0], projection = [[-1]]\<rparr>"

section \<open>Basic facts\<close>

lemma ebind_Inl [simp]: "ebind (Inl e) f = Inl e"
  by (simp add: ebind_def)

lemma ebind_Inr [simp]: "ebind (Inr x) f = f x"
  by (simp add: ebind_def)

lemma ebind_eq_Inr: "ebind m f = Inr y \<longleftrightarrow> (\<exists>x. m = Inr x \<and> f x = Inr y)"
  by (cases m) simp_all

lemma dom_ae_defaults: "dom ae_defaults = recognized_options"
  by (auto simp: ae_defaults_def recognized_options_def)

subsection \<open>Batches\<close>

declare chunks.simps [simp del]

lemma chunks_Nil [simp]: "chunks B [] = []"
  by (simp add: chunks.simps)

lemma chunks_0 [simp]: "chunks 0 xs = []"
  by (simp add: chunks.simps)

lemma chunks_step: "0 < B \<Longrightarrow> xs \<noteq> [] \<Longrightarrow> chunks B xs = take B xs # chunks B (drop B xs)"
  by (subst chunks.simps) simp

lemma concat_chunks: "0 < B \<Longrightarrow> concat (chunks B xs) = xs"
proof (induction B xs rule: chunks.induct)
  case (1 B xs)
  show ?case
  proof (cases "xs = []")
    case True
    then show ?thesis by simp
  next
    case False
    with "1.prems" have "concat (chunks B (drop B xs)) = drop B xs"
      using "1.IH" by simp
    with False "1.prems" show ?thesis by (simp add: chunks_step)
  qed
qed

lemma chunks_sizes: "b \<in> set (chunks B xs) \<Longrightarrow> 0 < length b \<and> length b \<le> B"
proof (induction B xs rule: chunks.induct)
  case (1 B xs)
  show ?case
  proof (cases "B = 0 \<or> xs = []")
    case True
    with "1.prems" show ?thesis by auto
  next
    case False
    with "1.prems" have "b = take B xs \<or> b \<in> set (chunks B (drop B xs))"
      by (simp add: chunks_step)
    with False "1.IH" show ?thesis by auto
  qed
qed

lemma butlast_chunks_full: "b \<in> set (butlast (chunks B xs)) \<Longrightarrow> length b = B"
proof (induction B xs rule: chunks.induct)
  case (1 B xs)
  show ?case
  proof (cases "B = 0 \<or> xs = []")
    case True
    with "1.prems" show ?thesis by auto
  next
    case False
    then have st: "chunks B xs = take B xs # chunks B (drop B xs)"
      by (simp add: chunks_step)
    show ?thesis
    proof (cases "chunks B (drop B xs) = []")
      case True
      with st "1.prems" show ?thesis by simp
    next
      case F: False
      then have "drop B xs \<noteq> []" by auto
      then have "B < length xs" by simp
      with st F "1.prems" "1.IH" False show ?thesis by auto
    qed
  qed
qed

subsection \<open>Slicing, datasets and row-wise transforms\<close>

lemma shape0_fun: "shape0 = (\<lambda>a. length (rows a))"
  by (rule ext) (simp add: shape0_def)

lemma length_collect [simp]: "length (collect t p ls) = length ls"
  by (induction ls arbitrary: p) simp_all

lemma nth_collect:
  "i < length ls \<Longrightarrow> collect t p ls ! i = take (ls ! i) (drop (p + sum_list (take i ls)) t)"
proof (induction ls arbitrary: p i)
  case Nil
  then show ?case by simp
next
  case (Cons l ls)
  show ?case
  proof (cases i)
    case 0
    then show ?thesis by simp
  next
    case (Suc j)
    with Cons.prems have "j < length ls" by simp
    from Cons.IH [OF this, of "p + l"] Suc show ?thesis by (simp add: add.assoc)
  qed
qed

lemma collect_reassemble:
  "ArrayList (collect t 0 (map shape0 ds)) = reassemble (Multiple ds) t"
proof -
  have "collect t 0 (map shape0 ds)
        = map (\<lambda>i. take (shape0 (ds ! i)) (drop (offset (map shape0 ds) i) t)) [0..<length ds]"
    by (rule nth_equalityI) (simp_all add: nth_collect offset_def)
  then show ?thesis by (simp add: reassemble_def)
qed

lemma collect_map: "collect (map g t) p ls = map (map g) (collect t p ls)"
  by (induction ls arbitrary: p) (simp_all add: take_map drop_map)

lemma collect_concat:
  "length pre = p \<Longrightarrow> collect (pre @ concat xss) p (map length xss) = xss"
proof (induction xss arbitrary: pre p)
  case Nil
  then show ?case by simp
next
  case (Cons xs xss)
  from Cons.prems have "length (pre @ xs) = p + length xs" by simp
  from Cons.IH [OF this] Cons.prems show ?case by simp
qed

lemma map_length_collect:
  "p + sum_list ls \<le> length t \<Longrightarrow> map length (collect t p ls) = ls"
  by (induction ls arbitrary: p) (simp_all add: add.assoc)

lemma concat_collect: "concat (collect t p ls) = take (sum_list ls) (drop p t)"
proof (induction ls arbitrary: p)
  case Nil
  then show ?case by simp
next
  case (Cons l ls)
  have "take l (drop p t) @ take (sum_list ls) (drop (p + l) t) = take (l + sum_list ls) (drop p t)"
    by (simp add: take_add add.commute)
  with Cons.IH [of "p + l"] show ?case by simp
qed

lemma lagged_pairs_0: "lagged_pairs 0 xs = map (\<lambda>x. (x, x)) xs"
  by (simp add: lagged_pairs_def zip_same_conv_map)

lemma length_lagged_pairs [simp]: "length (lagged_pairs lag xs) = length xs - lag"
  by (simp add: lagged_pairs_def)

lemma create_dataset_0:
  assumes "create_dataset d 0 = Inr ds"
  shows "ds = map (\<lambda>x. (x, x)) (all_rows d)"
proof (cases d)
  case (Single a)
  with assms show ?thesis by (simp add: create_dataset_def all_rows_def lagged_pairs_0)
next
  case (Multiple as)
  with assms have "ds = concat (map (\<lambda>a. lagged_pairs 0 (rows a)) as)"
    by (simp add: create_dataset_def split: if_splits)
  with Multiple show ?thesis
    by (simp add: all_rows_def lagged_pairs_0 map_concat comp_def)
qed

lemma length_all_rows: "length (all_rows d) = sum_list (series_lengths d)"
  by (cases d) (simp_all add: all_rows_def series_lengths_def shape0_fun length_concat comp_def)

lemma DataLoader_Inr:
  "DataLoader ds B = Inr l \<longleftrightarrow> 0 < B \<and> l = \<lparr>ld_dataset = ds, ld_batch_size = B\<rparr>"
  by (auto simp: DataLoader_def)

lemma concat_batches: "DataLoader ds B = Inr l \<Longrightarrow> concat (batches l) = ds"
  by (auto simp: DataLoader_Inr batches_def concat_chunks)

lemma linear_transform_rows:
  assumes "DataLoader ds B = Inr l" and "linear_transform m l = Inr t"
  shows "t = map (project m) (map fst ds)"
proof -
  have f: "(\<lambda>(x, y). project m x) = project m \<circ> fst" by auto
  from assms(2) have "t = concat (map (map (\<lambda>(x, y). project m x)) (batches l))"
    by (simp add: linear_transform_def split: if_splits)
  also have "\<dots> = map (\<lambda>(x, y). project m x) (concat (batches l))"
    by (simp add: map_concat)
  finally show ?thesis using concat_batches [OF assms(1)] by (simp add: f)
qed

lemma AE_transform_rows:
  assumes "DataLoader ds B = Inr l" and "AE_transform K m l = Inr t"
  shows "t = map (ae_encode K (params m)) (map fst ds)"
proof -
  have f: "(\<lambda>(x, y). ae_encode K (params m) x) = ae_encode K (params m) \<circ> fst" by auto
  from assms(2) have "t = concat (map (map (\<lambda>(x, y). ae_encode K (params m) x)) (batches l))"
    by (simp add: AE_transform_def split: if_splits)
  also have "\<dots> = map (\<lambda>(x, y). ae_encode K (params m) x) (concat (batches l))"
    by (simp add: map_concat)
  finally show ?thesis using concat_batches [OF assms(1)] by (simp add: f)
qed

lemma whiten_data_Inr:
  "whiten_data t = Inr w \<longleftrightarrow> (0 \<notin> set (stds t) \<and> w = map (\<lambda>r. map2 (/) r (stds t)) t)"
  by (auto simp: whiten_data_def stds_def Let_def list_ex_iff)

lemma transformed_data_Inr:
  "transformed_data mt d0 B w = Inr t \<longleftrightarrow>
     (\<exists>l. DataLoader d0 B = Inr l \<and>
          (if w then \<exists>u. mt l = Inr u \<and> whiten_data u = Inr t else mt l = Inr t))"
  by (auto simp: transformed_data_def ebind_eq_Inr)

lemma api_transform_Inr:
  "api_transform mt d d0 B w = Inr out \<longleftrightarrow>
     (\<exists>t. transformed_data mt d0 B w = Inr t \<and> out = reassemble d t)"
  by (cases d) (auto simp: api_transform_def ebind_eq_Inr collect_reassemble reassemble_def)

lemma reassemble_map_rows: "reassemble d (map g (all_rows d)) = map_rows g d"
proof (cases d)
  case (Single a)
  then show ?thesis by (simp add: reassemble_def map_rows_def all_rows_def)
next
  case (Multiple ds)
  have "collect (map g (concat (map rows ds))) 0 (map shape0 ds) = map (map g) (map rows ds)"
    using collect_concat [of "[]" 0 "map rows ds"]
    by (simp add: collect_map comp_def shape0_fun)
  with Multiple show ?thesis
    by (simp add: collect_reassemble [symmetric] map_rows_def all_rows_def comp_def)
qed

lemma row_counts_reassemble:
  "length t = sum_list (series_lengths d) \<Longrightarrow> row_counts (reassemble d t) = series_lengths d"
proof (cases d)
  case (Single a)
  moreover assume "length t = sum_list (series_lengths d)"
  ultimately show ?thesis by (simp add: reassemble_def row_counts_def series_lengths_def)
next
  case (Multiple ds)
  moreover assume "length t = sum_list (series_lengths d)"
  ultimately show ?thesis
    using map_length_collect [of 0 "map shape0 ds" t]
    by (simp add: collect_reassemble [symmetric] row_counts_def series_lengths_def)
qed

subsection \<open>Inversion of the entry points\<close>

lemma padd_Nil2 [simp]: "padd f xs [] = xs"
  by (cases xs) simp_all

lemma vadd_Nil [simp]: "vadd [] v = v" "vadd v [] = v"
  by (simp_all add: vadd_def)

lemma madd_Nil [simp]: "madd [] A = A" "madd A [] = A"
  by (simp_all add: madd_def)

lemma make_loaders_None:
  "make_loaders perm ds None B = Inr (tr, te) \<longleftrightarrow> DataLoader ds B = Inr tr \<and> te = None"
  by (auto simp: make_loaders_def ebind_eq_Inr)

lemma make_loaders_Some:
  "make_loaders perm ds (Some f) B = Inr (tr, te) \<longleftrightarrow>
     (\<exists>v t tel. random_split perm ds f = Inr (v, t)
        \<and> DataLoader (subset_items t) B = Inr tr
        \<and> DataLoader (subset_items v) B = Inr tel \<and> te = Some tel)"
  by (auto simp: make_loaders_def ebind_eq_Inr)

lemma pca_Inr:
  "pca K perm d tdim vs B w = Inr (out, ltr, lte) \<longleftrightarrow>
     (\<exists>data_0 train test model.
        create_dataset d 0 = Inr data_0
      \<and> make_loaders perm data_0 vs B = Inr (train, test)
      \<and> PCA_fit K train tdim test = Inr (model, ltr, lte)
      \<and> api_transform (linear_transform model) d data_0 B w = Inr out)"
  by (auto simp: pca_def ebind_eq_Inr)

lemma tica_Inr:
  "tica K perm d tdim lag km sy vs B w = Inr (out, ltr, lte) \<longleftrightarrow>
     (\<exists>data_0 data_lag train test model.
        create_dataset d 0 = Inr data_0
      \<and> create_dataset d lag = Inr data_lag
      \<and> make_loaders perm data_lag vs B = Inr (train, test)
      \<and> TICA_fit K km sy train tdim test = Inr (model, ltr, lte)
      \<and> api_transform (linear_transform model) d data_0 B w = Inr out)"
  by (auto simp: tica_def ebind_eq_Inr)

lemma ae_Inr:
  "ae K perm d tdim lag n vs B w kw = Inr (out, ltr, lte) \<longleftrightarrow>
     (\<exists>sz data_0 data_lag train test model model'.
        ae_size d = Inr sz
      \<and> create_dataset d 0 = Inr data_0
      \<and> create_dataset d lag = Inr data_lag
      \<and> make_loaders perm data_lag vs B = Inr (train, test)
      \<and> AE K sz tdim (ae_args kw) = Inr model
      \<and> AE_fit K model train n test = Inr (model', ltr, lte)
      \<and> api_transform (AE_transform K model') d data_0 B w = Inr out)"
  by (auto simp: ae_def ebind_eq_Inr)

subsection \<open>Whitening\<close>

lemma length_whiten: "whiten_data t = Inr u \<Longrightarrow> length u = length t"
  by (simp add: whiten_data_Inr)

lemma sum_list_divide: "sum_list (map (\<lambda>x. f x / c) xs) = sum_list (map f xs) / (c::real)"
  by (induction xs) (simp_all add: add_divide_distrib)

lemma avg_divide: "avg (map (\<lambda>x. x / c) xs) = avg xs / c"
  using sum_list_divide [of "\<lambda>x. x" c xs] by (simp add: avg_def)

lemma sample_variance_divide:
  "sample_variance (map (\<lambda>x. x / c) xs) = sample_variance xs / c\<^sup>2"
proof -
  have "(\<lambda>x. (x / c - avg xs / c)\<^sup>2) = (\<lambda>x. (x - avg xs)\<^sup>2 / c\<^sup>2)"
    by (rule ext) (simp add: diff_divide_distrib [symmetric] power_divide)
  then have "sum_list (map ((\<lambda>x. (x - avg xs / c)\<^sup>2) \<circ> (\<lambda>x. x / c)) xs)
             = sum_list (map (\<lambda>x. (x - avg xs)\<^sup>2) xs) / c\<^sup>2"
    by (simp add: comp_def sum_list_divide)
  then show ?thesis by (simp add: sample_variance_def avg_divide)
qed

lemma sample_variance_nonneg: "0 \<le> sample_variance xs"
  unfolding sample_variance_def
  by (intro divide_nonneg_nonneg sum_list_nonneg) auto

lemma sample_variance_whitened:
  assumes "std xs \<noteq> 0"
  shows "sample_variance (map (\<lambda>x. x / std xs) xs) = 1"
proof -
  have "(std xs)\<^sup>2 = sample_variance xs"
    by (simp add: std_def sample_variance_nonneg)
  moreover from assms have "sample_variance xs \<noteq> 0"
    by (simp add: std_def)
  ultimately show ?thesis by (simp add: sample_variance_divide)
qed

lemma length_stds [simp]: "length (stds t) = width t"
  by (simp add: stds_def)

lemma nth_stds: "j < width t \<Longrightarrow> stds t ! j = std (column j t)"
  by (simp add: stds_def)

lemma column_whiten:
  assumes "whiten_data t = Inr u" and rect: "\<forall>r\<in>set t. length r = width t" and j: "j < width t"
  shows "column j u = map (\<lambda>x. x / std (column j t)) (column j t)"
proof -
  from assms(1) have u: "u = map (\<lambda>r. map2 (/) r (stds t)) t"
    by (simp add: whiten_data_Inr)
  have "map2 (/) r (stds t) ! j = r ! j / std (column j t)" if "r \<in> set t" for r
    using that rect j by (simp add: nth_stds)
  then show ?thesis by (simp add: u column_def)
qed

lemma whiten_unit_variance:
  assumes "whiten_data t = Inr u" and "\<forall>r\<in>set t. length r = width t" and "j < width t"
  shows "sample_variance (column j u) = 1"
proof -
  from assms(1) have "0 \<notin> set (stds t)" by (simp add: whiten_data_Inr)
  with assms(3) have "std (column j t) \<noteq> 0"
    by (metis length_stds nth_mem nth_stds)
  then show ?thesis
    by (simp add: column_whiten [OF assms] sample_variance_whitened)
qed

lemma linear_transformed_rows:
  assumes "transformed_data (linear_transform m) ds B w = Inr t"
  shows "if w then t = map (\<lambda>r. map2 (/) r (stds (map (project m) (map fst ds))))
                    (map (project m) (map fst ds))
         else t = map (project m) (map fst ds)"
proof -
  from assms obtain l where l: "DataLoader ds B = Inr l"
    and t: "if w then \<exists>u. linear_transform m l = Inr u \<and> whiten_data u = Inr t
            else linear_transform m l = Inr t"
    by (auto simp: transformed_data_Inr)
  show ?thesis
  proof (cases w)
    case True
    with t obtain u where u: "linear_transform m l = Inr u" "whiten_data u = Inr t" by auto
    from linear_transform_rows [OF l u(1)] u(2) True show ?thesis
      by (simp add: whiten_data_Inr)
  next
    case False
    with t linear_transform_rows [OF l] show ?thesis by simp
  qed
qed

lemma AE_transformed_rows:
  assumes "transformed_data (AE_transform K m) ds B w = Inr t"
  shows "if w then t = map (\<lambda>r. map2 (/) r (stds (map (ae_encode K (params m)) (map fst ds))))
                    (map (ae_encode K (params m)) (map fst ds))
         else t = map (ae_encode K (params m)) (map fst ds)"
proof -
  from assms obtain l where l: "DataLoader ds B = Inr l"
    and t: "if w then \<exists>u. AE_transform K m l = Inr u \<and> whiten_data u = Inr t
            else AE_transform K m l = Inr t"
    by (auto simp: transformed_data_Inr)
  show ?thesis
  proof (cases w)
    case True
    with t obtain u where u: "AE_transform K m l = Inr u" "whiten_data u = Inr t" by auto
    from AE_transform_rows [OF l u(1)] u(2) True show ?thesis
      by (simp add: whiten_data_Inr)
  next
    case False
    with t AE_transform_rows [OF l] show ?thesis by simp
  qed
qed

lemma map_fst_data_0: "create_dataset d 0 = Inr ds \<Longrightarrow> map fst ds = all_rows d"
  by (drule create_dataset_0) (simp add: comp_def)

lemma linear_transformed_length:
  "create_dataset d 0 = Inr ds \<Longrightarrow> transformed_data (linear_transform m) ds B w = Inr t
   \<Longrightarrow> length t = sum_list (series_lengths d)"
  using linear_transformed_rows [of m ds B w t] map_fst_data_0 [of d ds] length_all_rows [of d]
  by (auto split: if_splits)

lemma AE_transformed_length:
  "create_dataset d 0 = Inr ds \<Longrightarrow> transformed_data (AE_transform K m) ds B w = Inr t
   \<Longrightarrow> length t = sum_list (series_lengths d)"
  using AE_transformed_rows [of K m ds B w t] map_fst_data_0 [of d ds] length_all_rows [of d]
  by (auto split: if_splits)

subsection \<open>The entry points, stage by stage\<close>

lemma api_transform_linear:
  assumes "create_dataset d 0 = Inr data_0"
    and "api_transform (linear_transform m) d data_0 B w = Inr out"
  shows "\<exists>t. transformed_data (linear_transform m) data_0 B w = Inr t
           \<and> length t = sum_list (series_lengths d) \<and> out = reassemble d t
           \<and> row_counts out = series_lengths d"
  using assms
  by (auto simp: api_transform_Inr linear_transformed_length row_counts_reassemble)

lemma api_transform_AE:
  assumes "create_dataset d 0 = Inr data_0"
    and "api_transform (AE_transform K m) d data_0 B w = Inr out"
  shows "\<exists>t. transformed_data (AE_transform K m) data_0 B w = Inr t
           \<and> length t = sum_list (series_lengths d) \<and> out = reassemble d t
           \<and> row_counts out = series_lengths d"
  using assms
  by (auto simp: api_transform_Inr AE_transformed_length row_counts_reassemble)

lemma length_data_0: "create_dataset d 0 = Inr ds \<Longrightarrow> length ds = sum_list (series_lengths d)"
  using create_dataset_0 [of d ds] length_all_rows [of d] by simp

lemma batches_bounds:
  assumes "DataLoader ds B = Inr l"
  shows "concat (batches l) = ds"
    and "\<forall>b\<in>set (batches l). 0 < length b \<and> length b \<le> B"
    and "\<forall>b\<in>set (butlast (batches l)). length b = B"
proof -
  from assms have l: "0 < B" "batches l = chunks B ds"
    by (auto simp: DataLoader_Inr batches_def)
  show "concat (batches l) = ds" by (rule concat_batches [OF assms])
  show "\<forall>b\<in>set (batches l). 0 < length b \<and> length b \<le> B"
    unfolding l(2) using chunks_sizes by blast
  show "\<forall>b\<in>set (butlast (batches l)). length b = B"
    unfolding l(2) using butlast_chunks_full by blast
qed

lemma map_rows_whitened:
  "reassemble d (map (\<lambda>r. map2 (/) r s) (map g (all_rows d))) = map_rows (\<lambda>x. map2 (/) (g x) s) d"
  using reassemble_map_rows [of d "\<lambda>x. map2 (/) (g x) s"] by (simp add: comp_def)

lemma api_transform_linear_rows:
  assumes "create_dataset d 0 = Inr data_0"
    and "api_transform (linear_transform m) d data_0 B w = Inr out"
  shows "if w then out = map_rows (\<lambda>x. map2 (/) (project m x) (stds (map (project m) (all_rows d)))) d
         else out = map_rows (project m) d"
proof -
  from assms(2) obtain t where t: "transformed_data (linear_transform m) data_0 B w = Inr t"
    and out: "out = reassemble d t"
    by (auto simp: api_transform_Inr)
  from linear_transformed_rows [OF t] map_fst_data_0 [OF assms(1)] out show ?thesis
    by (auto simp: map_rows_whitened reassemble_map_rows comp_def split: if_splits)
qed

lemma api_transform_AE_rows:
  assumes "create_dataset d 0 = Inr data_0"
    and "api_transform (AE_transform K m) d data_0 B w = Inr out"
  shows "if w then out = map_rows (\<lambda>x. map2 (/) (ae_encode K (params m) x)
                           (stds (map (ae_encode K (params m)) (all_rows d)))) d
         else out = map_rows (ae_encode K (params m)) d"
proof -
  from assms(2) obtain t where t: "transformed_data (AE_transform K m) data_0 B w = Inr t"
    and out: "out = reassemble d t"
    by (auto simp: api_transform_Inr)
  from AE_transformed_rows [OF t] map_fst_data_0 [OF assms(1)] out show ?thesis
    by (auto simp: map_rows_whitened reassemble_map_rows comp_def split: if_splits)
qed

lemma api_transform_whiten_cases:
  assumes "api_transform mt d data_0 B w = Inr out"
  shows "\<exists>loader t. DataLoader data_0 B = Inr loader \<and> mt loader = Inr t
           \<and> (if w then \<exists>u. whiten_data t = Inr u \<and> out = reassemble d u
               else out = reassemble d t)"
  using assms by (auto simp: api_transform_Inr transformed_data_Inr split: if_splits)

lemma PCA_fit_no_test: "PCA_fit K train tdim None = Inr (m, a, b) \<Longrightarrow> b = None"
  by (auto simp: PCA_fit_def Let_def)

lemma TICA_fit_no_test: "TICA_fit K km sy train tdim None = Inr (m, a, b) \<Longrightarrow> b = None"
  by (auto simp: TICA_fit_def Let_def ebind_eq_Inr)

lemma AE_fit_no_test: "AE_fit K m0 train n None = Inr (m, a, b) \<Longrightarrow> b = None"
  by (auto simp: AE_fit_def Let_def split: if_splits)

lemma make_loaders_None_perm: "make_loaders perm ds None B = make_loaders perm' ds None B"
  by (simp add: make_loaders_def)

lemma random_split_Inr:
  "random_split perm ds f = Inr (v, t) \<longleftrightarrow>
     0 < f \<and> f < 1 \<and> 0 < n_active f (length ds) \<and> n_active f (length ds) < length ds
   \<and> v = \<lparr>base = ds, indices = take (n_active f (length ds)) perm\<rparr>
   \<and> t = \<lparr>base = ds, indices = drop (n_active f (length ds)) perm\<rparr>"
  by (auto simp: random_split_def Let_def)

lemma length_permutation: "is_permutation perm N \<Longrightarrow> length perm = N"
  using distinct_card [of perm] by (simp add: is_permutation_def)

lemma split_parts:
  assumes perm: "is_permutation perm (length ds)"
    and split: "random_split perm ds f = Inr (v, t)"
  shows "indices v @ indices t = perm"
    and "set (indices v) \<inter> set (indices t) = {}"
    and "set (indices v) \<union> set (indices t) = {0..<length ds}"
    and "distinct (indices v)" and "distinct (indices t)"
    and "length (subset_items v) + length (subset_items t) = length ds"
    and "int (length (subset_items v)) = round (f * real (length ds))"
proof -
  let ?k = "n_active f (length ds)"
  from split have k: "0 < ?k" "?k < length ds"
    and v: "indices v = take ?k perm" and t: "indices t = drop ?k perm"
    by (auto simp: random_split_Inr)
  from perm have d: "distinct perm" and s: "set perm = {0..<length ds}"
    by (simp_all add: is_permutation_def)
  show app: "indices v @ indices t = perm" by (simp add: v t)
  from d app have da: "distinct (indices v @ indices t)" by simp
  then show "set (indices v) \<inter> set (indices t) = {}"
    and "distinct (indices v)" and "distinct (indices t)" by simp_all
  have "set (indices v) \<union> set (indices t) = set (indices v @ indices t)" by simp
  with app s show "set (indices v) \<union> set (indices t) = {0..<length ds}" by simp
  have "length (indices v) + length (indices t) = length perm"
    by (simp add: app [symmetric])
  with length_permutation [OF perm]
  show "length (subset_items v) + length (subset_items t) = length ds"
    by (simp add: subset_items_def)
  from k length_permutation [OF perm] have "length (indices v) = ?k" by (simp add: v)
  moreover from k(1) have "int ?k = round (f * real (length ds))"
    by (simp add: n_active_def)
  ultimately show "int (length (subset_items v)) = round (f * real (length ds))"
    by (simp add: subset_items_def)
qed

subsection \<open>Runs of the worked example\<close>

lemmas ex_defs = ex_data_def ex_series_a_def ex_series_b_def ex_data_0_def ex_data_lag_def

lemmas stat_defs = ex_mean_def ex_cov_def ex_xcov_def avg_def
  madd_def vadd_def vscale_def mscale_def symmetrize_m_def lagged_cov_def

lemma ex_create_0: "create_dataset ex_data 0 = Inr ex_data_0"
  by (simp add: create_dataset_def ex_defs lagged_pairs_def)

lemma ex_create_lag: "create_dataset ex_data (Suc 0) = Inr ex_data_lag"
  by (simp add: create_dataset_def ex_defs lagged_pairs_def)

lemma ex_size: "ae_size ex_data = Inr (Suc 0)"
  by (simp add: ae_size_def ex_defs)

lemma ex_lengths: "series_lengths ex_data = [3, 2]"
  by (simp add: series_lengths_def ex_defs shape0_def)

lemma ex_loader: "DataLoader ds 2 = Inr \<lparr>ld_dataset = ds, ld_batch_size = 2\<rparr>"
  by (simp add: DataLoader_def)

lemma ex_loaders_None:
  "make_loaders perm ds None 2 = Inr (\<lparr>ld_dataset = ds, ld_batch_size = 2\<rparr>, None)"
  by (simp add: make_loaders_None DataLoader_Inr)

lemma ex_batches_0:
  "batches \<lparr>ld_dataset = ex_data_0, ld_batch_size = 2\<rparr>
   = [[([2], [2]), ([-2], [-2])], [([2], [2]), ([-2], [-2])], [([0], [0])]]"
  by (simp add: batches_def ex_data_0_def chunks_step)

lemma ex_batches_lag:
  "batches \<lparr>ld_dataset = ex_data_lag, ld_batch_size = 2\<rparr>
   = [[([2], [-2]), ([-2], [2])], [([-2], [0])]]"
  by (simp add: batches_def ex_data_lag_def chunks_step)

lemma ex_PCA_fit:
  "PCA_fit ex_pca_kernel \<lparr>ld_dataset = ex_data_0, ld_batch_size = 2\<rparr> (Some (Suc 0)) None
   = Inr (ex_pca_model, - (16/5), None)"
  by (simp add: PCA_fit_def ex_batches_0 Let_def stat_defs ex_pca_kernel_def keep_def
      ex_pca_model_def)

lemma ex_pca_transform:
  "linear_transform ex_pca_model \<lparr>ld_dataset = ex_data_0, ld_batch_size = 2\<rparr>
   = Inr [[2], [-2], [2], [-2], [0]]"
  by (simp add: linear_transform_def ex_batches_0 project_def ex_pca_model_def vec_mat_def
      vsub_def vscale_def vsum_def vadd_def)

lemma ex_api:
  "transformed_data mt ex_data_0 B w = Inr [[a], [b], [c], [d], [e]]
   \<Longrightarrow> api_transform mt ex_data ex_data_0 B w = Inr (ArrayList [[[a], [b], [c]], [[d], [e]]])"
  by (simp add: api_transform_def ex_data_def ex_series_a_def ex_series_b_def shape0_def)

lemma ex_pca_api_plain:
  "api_transform (linear_transform ex_pca_model) ex_data ex_data_0 2 False
   = Inr (ArrayList [[[2], [-2], [2]], [[-2], [0]]])"
  by (rule ex_api) (simp add: transformed_data_def ex_loader ex_pca_transform)

lemma ex_pca_plain:
  "pca ex_pca_kernel [] ex_data (Some 1) None 2 False
   = Inr (ArrayList [[[2], [-2], [2]], [[-2], [0]]], - (16/5), None)"
  unfolding One_nat_def pca_Inr
  using ex_create_0 ex_loaders_None ex_PCA_fit ex_pca_api_plain by blast

lemma ex_TICA_fit:
  "TICA_fit ex_tica_kernel True False \<lparr>ld_dataset = ex_data_lag, ld_batch_size = 2\<rparr> (Some (Suc 0)) None
   = Inr (ex_tica_model, 3/4, None)"
  by (simp add: TICA_fit_def ex_batches_lag Let_def stat_defs ex_tica_kernel_def keep_def
      ex_tica_model_def)

lemma ex_tica_transform:
  "linear_transform ex_tica_model \<lparr>ld_dataset = ex_data_0, ld_batch_size = 2\<rparr>
   = Inr [[-2], [1], [-2], [1], [-(1/2)]]"
  by (simp add: linear_transform_def ex_batches_0 project_def ex_tica_model_def vec_mat_def
      vsub_def vscale_def vsum_def vadd_def)

lemma ex_tica_api_plain:
  "api_transform (linear_transform ex_tica_model) ex_data ex_data_0 2 False
   = Inr (ArrayList [[[-2], [1], [-2]], [[1], [-(1/2)]]])"
  by (rule ex_api) (simp add: transformed_data_def ex_loader ex_tica_transform)

lemma ex_tica_plain:
  "tica ex_tica_kernel [] ex_data (Some 1) 1 True False None 2 False
   = Inr (ArrayList [[[-2], [1], [-2]], [[1], [-(1/2)]]], 3/4, None)"
  unfolding One_nat_def tica_Inr
  using ex_create_0 ex_create_lag ex_loaders_None ex_TICA_fit ex_tica_api_plain by blast

lemma ex_AE:
  "AE counting_kernel (Suc 0) (Some (Suc 0)) (ae_args Map.empty)
   = Inr \<lparr>in_size = Suc 0, params = 0\<rparr>"
  by (simp add: AE_def counting_kernel_def)

lemma ex_AE_fit_2:
  "AE_fit counting_kernel \<lparr>in_size = Suc 0, params = 0\<rparr>
     \<lparr>ld_dataset = ex_data_lag, ld_batch_size = 2\<rparr> (Suc 0) None
   = Inr (\<lparr>in_size = Suc 0, params = 2\<rparr>, 3, None)"
  by (simp add: AE_fit_def ex_batches_lag fits_width_def counting_kernel_def)
     (simp add: ex_data_lag_def)

lemma ex_AE_transform_2:
  "AE_transform counting_kernel \<lparr>in_size = Suc 0, params = 2\<rparr>
     \<lparr>ld_dataset = ex_data_0, ld_batch_size = 2\<rparr>
   = Inr [[4], [0], [4], [0], [2]]"
  by (simp add: AE_transform_def ex_batches_0 fits_width_def counting_kernel_def)
     (simp add: ex_data_0_def)

lemma ex_ae_plain:
  "ae counting_kernel [] ex_data (Some 1) 1 1 None 2 False Map.empty
   = Inr (ArrayList [[[4], [0], [4]], [[0], [2]]], 3, None)"
proof -
  have "api_transform (AE_transform counting_kernel \<lparr>in_size = Suc 0, params = 2\<rparr>)
          ex_data ex_data_0 2 False = Inr (ArrayList [[[4], [0], [4]], [[0], [2]]])"
    by (rule ex_api) (simp add: transformed_data_def ex_loader ex_AE_transform_2)
  then show ?thesis
    unfolding One_nat_def ae_Inr
    using ex_size ex_create_0 ex_create_lag ex_loaders_None ex_AE ex_AE_fit_2 by blast
qed

lemmas whiten_defs = whiten_data_def stds_def width_def column_def std_def
  sample_variance_def avg_def

lemma ex_whiten_pca:
  "whiten_data [[2/3], [-(10/3)], [2/3], [-(10/3)], [-(4/3)]]
   = Inr [[1/3], [-(5/3)], [1/3], [-(5/3)], [-(2/3)]]"
  by (simp add: whiten_defs)

lemma ex_whiten_tica:
  "whiten_data [[-2], [2], [-2], [2], [0]] = Inr [[-1], [1], [-1], [1], [0]]"
  by (simp add: whiten_defs)

lemma ex_whiten_ae:
  "whiten_data [[3], [-1], [3], [-1], [1]] = Inr [[3/2], [-(1/2)], [3/2], [-(1/2)], [1/2]]"
  by (simp add: whiten_defs)

lemma ex_n_active_5: "n_active (2/5) 5 = 2"
  by (simp add: n_active_def)

lemma ex_n_active_3: "n_active (2/5) 3 = 1"
  by (simp add: n_active_def round_def)

lemma ex_split_0:
  "random_split ex_perm_5 ex_data_0 (2/5)
   = Inr (\<lparr>base = ex_data_0, indices = [3, 1]\<rparr>, \<lparr>base = ex_data_0, indices = [4, 0, 2]\<rparr>)"
proof -
  have "length ex_data_0 = 5" by (simp add: ex_data_0_def)
  then show ?thesis by (simp add: random_split_def ex_n_active_5 ex_perm_5_def)
qed

lemma ex_split_lag:
  "random_split ex_perm_3 ex_data_lag (2/5)
   = Inr (\<lparr>base = ex_data_lag, indices = [2]\<rparr>, \<lparr>base = ex_data_lag, indices = [0, 1]\<rparr>)"
proof -
  have "length ex_data_lag = 3" by (simp add: ex_data_lag_def)
  then show ?thesis by (simp add: random_split_def ex_n_active_3 ex_perm_3_def)
qed

lemma ex_items_0:
  "subset_items \<lparr>base = ex_data_0, indices = [4, 0, 2]\<rparr> = ex_train_0"
  "subset_items \<lparr>base = ex_data_0, indices = [3, Suc 0]\<rparr> = ex_test_0"
  by (simp_all add: subset_items_def ex_data_0_def ex_train_0_def ex_test_0_def)

lemma ex_items_lag:
  "subset_items \<lparr>base = ex_data_lag, indices = [0, Suc 0]\<rparr> = ex_train_lag"
  "subset_items \<lparr>base = ex_data_lag, indices = [2]\<rparr> = ex_test_lag"
  by (simp_all add: subset_items_def ex_data_lag_def ex_train_lag_def ex_test_lag_def)

lemma ex_loaders_split_0:
  "make_loaders ex_perm_5 ex_data_0 (Some (2/5)) 2
   = Inr (\<lparr>ld_dataset = ex_train_0, ld_batch_size = 2\<rparr>,
          Some \<lparr>ld_dataset = ex_test_0, ld_batch_size = 2\<rparr>)"
  by (simp add: make_loaders_def ex_split_0 ex_items_0 ex_loader)

lemma ex_loaders_split_lag:
  "make_loaders ex_perm_3 ex_data_lag (Some (2/5)) 2
   = Inr (\<lparr>ld_dataset = ex_train_lag, ld_batch_size = 2\<rparr>,
          Some \<lparr>ld_dataset = ex_test_lag, ld_batch_size = 2\<rparr>)"
  by (simp add: make_loaders_def ex_split_lag ex_items_lag ex_loader)

lemma ex_batches_split:
  "batches \<lparr>ld_dataset = ex_train_0, ld_batch_size = 2\<rparr> = [[([0], [0]), ([2], [2])], [([2], [2])]]"
  "batches \<lparr>ld_dataset = ex_test_0, ld_batch_size = 2\<rparr> = [[([-2], [-2]), ([-2], [-2])]]"
  "batches \<lparr>ld_dataset = ex_train_lag, ld_batch_size = 2\<rparr> = [[([2], [-2]), ([-2], [2])]]"
  "batches \<lparr>ld_dataset = ex_test_lag, ld_batch_size = 2\<rparr> = [[([-2], [0])]]"
  by (simp_all add: batches_def ex_train_0_def ex_test_0_def ex_train_lag_def ex_test_lag_def
      chunks_step)

lemma ex_PCA_fit_split:
  "PCA_fit ex_pca_kernel \<lparr>ld_dataset = ex_train_0, ld_batch_size = 2\<rparr> (Some (Suc 0))
     (Some \<lparr>ld_dataset = ex_test_0, ld_batch_size = 2\<rparr>)
   = Inr (ex_pca_model_split, - (8/9), Some (- (100/9)))"
  by (simp add: PCA_fit_def ex_batches_split Let_def stat_defs ex_pca_kernel_def keep_def
      ex_pca_model_split_def power2_eq_square)

lemma ex_pca_transform_split:
  "linear_transform ex_pca_model_split \<lparr>ld_dataset = ex_data_0, ld_batch_size = 2\<rparr>
   = Inr [[2/3], [-(10/3)], [2/3], [-(10/3)], [-(4/3)]]"
  by (simp add: linear_transform_def ex_batches_0 project_def ex_pca_model_split_def vec_mat_def
      vsub_def vscale_def vsum_def vadd_def)

lemma ex_pca_split:
  "pca ex_pca_kernel ex_perm_5 ex_data (Some 1) (Some (2/5)) 2 True
   = Inr (ArrayList [[[1/3], [-(5/3)], [1/3]], [[-(5/3)], [-(2/3)]]], - (8/9), Some (- (100/9)))"
proof -
  have "api_transform (linear_transform ex_pca_model_split) ex_data ex_data_0 2 True
        = Inr (ArrayList [[[1/3], [-(5/3)], [1/3]], [[-(5/3)], [-(2/3)]]])"
    by (rule ex_api)
       (simp add: transformed_data_def ex_loader ex_pca_transform_split ex_whiten_pca)
  then show ?thesis
    unfolding One_nat_def pca_Inr
    using ex_create_0 ex_loaders_split_0 ex_PCA_fit_split by blast
qed

lemma ex_TICA_fit_split:
  "TICA_fit ex_tica_kernel True False \<lparr>ld_dataset = ex_train_lag, ld_batch_size = 2\<rparr>
     (Some (Suc 0)) (Some \<lparr>ld_dataset = ex_test_lag, ld_batch_size = 2\<rparr>)
   = Inr (ex_tica_model_split, 1, Some 0)"
  by (simp add: TICA_fit_def ex_batches_split Let_def stat_defs ex_tica_kernel_def keep_def
      ex_tica_model_split_def)

lemma ex_tica_transform_split:
  "linear_transform ex_tica_model_split \<lparr>ld_dataset = ex_data_0, ld_batch_size = 2\<rparr>
   = Inr [[-2], [2], [-2], [2], [0]]"
  by (simp add: linear_transform_def ex_batches_0 project_def ex_tica_model_split_def vec_mat_def
      vsub_def vscale_def vsum_def vadd_def)

lemma ex_tica_split:
  "tica ex_tica_kernel ex_perm_3 ex_data (Some 1) 1 True False (Some (2/5)) 2 True
   = Inr (ArrayList [[[-1], [1], [-1]], [[1], [0]]], 1, Some 0)"
proof -
  have "api_transform (linear_transform ex_tica_model_split) ex_data ex_data_0 2 True
        = Inr (ArrayList [[[-1], [1], [-1]], [[1], [0]]])"
    by (rule ex_api)
       (simp add: transformed_data_def ex_loader ex_tica_transform_split ex_whiten_tica)
  then show ?thesis
    unfolding One_nat_def tica_Inr
    using ex_create_0 ex_create_lag ex_loaders_split_lag ex_TICA_fit_split by blast
qed

lemma ex_AE_fit_split:
  "AE_fit counting_kernel \<lparr>in_size = Suc 0, params = 0\<rparr>
     \<lparr>ld_dataset = ex_train_lag, ld_batch_size = 2\<rparr> (Suc 0)
     (Some \<lparr>ld_dataset = ex_test_lag, ld_batch_size = 2\<rparr>)
   = Inr (\<lparr>in_size = Suc 0, params = 1\<rparr>, 2, Some 1)"
  by (simp add: AE_fit_def ex_batches_split fits_width_def counting_kernel_def)
     (simp add: ex_train_lag_def ex_test_lag_def)

lemma ex_AE_transform_split:
  "AE_transform counting_kernel \<lparr>in_size = Suc 0, params = Suc 0\<rparr>
     \<lparr>ld_dataset = ex_data_0, ld_batch_size = 2\<rparr>
   = Inr [[3], [-1], [3], [-1], [1]]"
  by (simp add: AE_transform_def ex_batches_0 fits_width_def counting_kernel_def)
     (simp add: ex_data_0_def)

lemma ex_ae_split:
  "ae counting_kernel ex_perm_3 ex_data (Some 1) 1 1 (Some (2/5)) 2 True Map.empty
   = Inr (ArrayList [[[3/2], [-(1/2)], [3/2]], [[-(1/2)], [1/2]]], 2, Some 1)"
proof -
  have "api_transform (AE_transform counting_kernel \<lparr>in_size = Suc 0, params = Suc 0\<rparr>)
          ex_data ex_data_0 2 True
        = Inr (ArrayList [[[3/2], [-(1/2)], [3/2]], [[-(1/2)], [1/2]]])"
    by (rule ex_api)
       (simp add: transformed_data_def ex_loader ex_AE_transform_split ex_whiten_ae)
  moreover have "AE_fit counting_kernel \<lparr>in_size = Suc 0, params = 0\<rparr>
     \<lparr>ld_dataset = ex_train_lag, ld_batch_size = 2\<rparr> (Suc 0)
     (Some \<lparr>ld_dataset = ex_test_lag, ld_batch_size = 2\<rparr>)
   = Inr (\<lparr>in_size = Suc 0, params = Suc 0\<rparr>, 2, Some 1)"
    using ex_AE_fit_split by simp
  ultimately show ?thesis
    unfolding One_nat_def ae_Inr
    using ex_size ex_create_0 ex_create_lag ex_loaders_split_lag ex_AE by blast
qed

lemma ex_single_create_0: "create_dataset ex_single 0 = Inr ex_single_0"
  by (simp add: create_dataset_def ex_single_def ex_series_a_def ex_single_0_def lagged_pairs_def)

lemma ex_single_create_lag: "create_dataset ex_single (Suc 0) = Inr ex_train_lag"
  by (simp add: create_dataset_def ex_single_def ex_series_a_def ex_train_lag_def
      lagged_pairs_def)

lemma ex_single_size: "ae_size ex_single = Inr (Suc 0)"
  by (simp add: ae_size_def ex_single_def ex_series_a_def)

lemma ex_single_lengths: "series_lengths ex_single = [3]"
  by (simp add: series_lengths_def ex_single_def ex_series_a_def shape0_def)

lemma ex_batches_single:
  "batches \<lparr>ld_dataset = ex_single_0, ld_batch_size = 2\<rparr>
   = [[([2], [2]), ([-2], [-2])], [([2], [2])]]"
  by (simp add: batches_def ex_single_0_def chunks_step)

lemma ex_single_api:
  "transformed_data mt ex_single_0 B w = Inr t
   \<Longrightarrow> api_transform mt ex_single ex_single_0 B w = Inr (Array t)"
  by (simp add: api_transform_def ex_single_def)

lemma ex_PCA_fit_single:
  "PCA_fit ex_pca_kernel \<lparr>ld_dataset = ex_single_0, ld_batch_size = 2\<rparr> (Some (Suc 0)) None
   = Inr (ex_pca_model_single, - (32/9), None)"
  by (simp add: PCA_fit_def ex_batches_single Let_def stat_defs ex_pca_kernel_def keep_def
      ex_pca_model_single_def power2_eq_square)

lemma ex_pca_transform_single:
  "linear_transform ex_pca_model_single \<lparr>ld_dataset = ex_single_0, ld_batch_size = 2\<rparr>
   = Inr [[4/3], [-(8/3)], [4/3]]"
  by (simp add: linear_transform_def ex_batches_single project_def ex_pca_model_single_def
      vec_mat_def vsub_def vscale_def vsum_def vadd_def)

lemma ex_pca_single:
  "pca ex_pca_kernel [] ex_single (Some 1) None 2 False
   = Inr (Array [[4/3], [-(8/3)], [4/3]], - (32/9), None)"
proof -
  have "api_transform (linear_transform ex_pca_model_single) ex_single ex_single_0 2 False
        = Inr (Array [[4/3], [-(8/3)], [4/3]])"
    by (rule ex_single_api) (simp add: transformed_data_def ex_loader ex_pca_transform_single)
  then show ?thesis
    unfolding One_nat_def pca_Inr
    using ex_single_create_0 ex_loaders_None ex_PCA_fit_single by blast
qed

lemma ex_TICA_fit_single:
  "TICA_fit ex_tica_kernel True False \<lparr>ld_dataset = ex_train_lag, ld_batch_size = 2\<rparr>
     (Some (Suc 0)) None
   = Inr (ex_tica_model_split, 1, None)"
  by (simp add: TICA_fit_def ex_batches_split Let_def stat_defs ex_tica_kernel_def keep_def
      ex_tica_model_split_def)

lemma ex_tica_transform_single:
  "linear_transform ex_tica_model_split \<lparr>ld_dataset = ex_single_0, ld_batch_size = 2\<rparr>
   = Inr [[-2], [2], [-2]]"
  by (simp add: linear_transform_def ex_batches_single project_def ex_tica_model_split_def
      vec_mat_def vsub_def vscale_def vsum_def vadd_def)

lemma ex_tica_single:
  "tica ex_tica_kernel [] ex_single (Some 1) 1 True False None 2 False
   = Inr (Array [[-2], [2], [-2]], 1, None)"
proof -
  have "api_transform (linear_transform ex_tica_model_split) ex_single ex_single_0 2 False
        = Inr (Array [[-2], [2], [-2]])"
    by (rule ex_single_api) (simp add: transformed_data_def ex_loader ex_tica_transform_single)
  then show ?thesis
    unfolding One_nat_def tica_Inr
    using ex_single_create_0 ex_single_create_lag ex_loaders_None ex_TICA_fit_single by blast
qed

lemma ex_AE_fit_single:
  "AE_fit counting_kernel \<lparr>in_size = Suc 0, params = 0\<rparr>
     \<lparr>ld_dataset = ex_train_lag, ld_batch_size = 2\<rparr> (Suc 0) None
   = Inr (\<lparr>in_size = Suc 0, params = Suc 0\<rparr>, 2, None)"
  by (simp add: AE_fit_def ex_batches_split fits_width_def counting_kernel_def)
     (simp add: ex_train_lag_def)

lemma ex_AE_transform_single:
  "AE_transform counting_kernel \<lparr>in_size = Suc 0, params = Suc 0\<rparr>
     \<lparr>ld_dataset = ex_single_0, ld_batch_size = 2\<rparr>
   = Inr [[3], [-1], [3]]"
  by (simp add: AE_transform_def ex_batches_single fits_width_def counting_kernel_def)
     (simp add: ex_single_0_def)

lemma ex_ae_single:
  "ae counting_kernel [] ex_single (Some 1) 1 1 None 2 False Map.empty
   = Inr (Array [[3], [-1], [3]], 2, None)"
proof -
  have "api_transform (AE_transform counting_kernel \<lparr>in_size = Suc 0, params = Suc 0\<rparr>)
          ex_single ex_single_0 2 False = Inr (Array [[3], [-1], [3]])"
    by (rule ex_single_api) (simp add: transformed_data_def ex_loader ex_AE_transform_single)
  then show ?thesis
    unfolding One_nat_def ae_Inr
    using ex_single_size ex_single_create_0 ex_single_create_lag ex_loaders_None ex_AE
      ex_AE_fit_single by blast
qed

section \<open>Transform on the lag-0 dataset; reassembly of the result\<close>

text \<open>
  C1. In \<open>tica\<close> and \<open>ae\<close> the dataset handed to the transform is built with lag 0,
  whatever lag is used for the fit, so the transformed output has one row for every
  observation of the input: for a single series and for a list of series alike, the
  row counts of the returned arrays are the lengths \<open>T_i\<close> of the series, not
  \<open>T_i - lag\<close>. A call returns a result exactly when its stages succeed (both datasets,
  the loaders, the fit, and the transform over the lag-0 dataset), whatever the form of
  the input; the result is then the reassembled output of that transform and has these
  row counts.
\<close>

theorem transform_uses_lag_0:
  "(tica Kt perm d tdim lag km sy vs B w = Inr (out, ltr, lte) \<longleftrightarrow>
      (\<exists>data_0 data_lag train test model t.
         create_dataset d 0 = Inr data_0
       \<and> length data_0 = sum_list (series_lengths d)
       \<and> create_dataset d lag = Inr data_lag
       \<and> make_loaders perm data_lag vs B = Inr (train, test)
       \<and> TICA_fit Kt km sy train tdim test = Inr (model, ltr, lte)
       \<and> transformed_data (linear_transform model) data_0 B w = Inr t
       \<and> length t = sum_list (series_lengths d)
       \<and> out = reassemble d t
       \<and> row_counts out = series_lengths d))
   \<and> (ae Ka perm d tdim lag n vs B w kw = Inr (out, ltr, lte) \<longleftrightarrow>
      (\<exists>sz data_0 data_lag train test model0 model t.
         ae_size d = Inr sz
       \<and> create_dataset d 0 = Inr data_0
       \<and> length data_0 = sum_list (series_lengths d)
       \<and> create_dataset d lag = Inr data_lag
       \<and> make_loaders perm data_lag vs B = Inr (train, test)
       \<and> AE Ka sz tdim (ae_args kw) = Inr model0
       \<and> AE_fit Ka model0 train n test = Inr (model, ltr, lte)
       \<and> transformed_data (AE_transform Ka model) data_0 B w = Inr t
       \<and> length t = sum_list (series_lengths d)
       \<and> out = reassemble d t
       \<and> row_counts out = series_lengths d))
   \<and> series_lengths (Single a) = [shape0 a]
   \<and> series_lengths (Multiple ds) = map shape0 ds"
proof (intro conjI iffI)
  assume "tica Kt perm d tdim lag km sy vs B w = Inr (out, ltr, lte)"
  then obtain data_0 data_lag train test model where a: "create_dataset d 0 = Inr data_0"
    "create_dataset d lag = Inr data_lag"
    "make_loaders perm data_lag vs B = Inr (train, test)"
    "TICA_fit Kt km sy train tdim test = Inr (model, ltr, lte)"
    "api_transform (linear_transform model) d data_0 B w = Inr out"
    unfolding tica_Inr by blast
  from api_transform_linear [OF a(1,5)] a length_data_0 [OF a(1)]
  show "\<exists>data_0 data_lag train test model t.
         create_dataset d 0 = Inr data_0
       \<and> length data_0 = sum_list (series_lengths d)
       \<and> create_dataset d lag = Inr data_lag
       \<and> make_loaders perm data_lag vs B = Inr (train, test)
       \<and> TICA_fit Kt km sy train tdim test = Inr (model, ltr, lte)
       \<and> transformed_data (linear_transform model) data_0 B w = Inr t
       \<and> length t = sum_list (series_lengths d)
       \<and> out = reassemble d t
       \<and> row_counts out = series_lengths d"
    by blast
next
  assume "\<exists>data_0 data_lag train test model t.
         create_dataset d 0 = Inr data_0
       \<and> length data_0 = sum_list (series_lengths d)
       \<and> create_dataset d lag = Inr data_lag
       \<and> make_loaders perm data_lag vs B = Inr (train, test)
       \<and> TICA_fit Kt km sy train tdim test = Inr (model, ltr, lte)
       \<and> transformed_data (linear_transform model) data_0 B w = Inr t
       \<and> length t = sum_list (series_lengths d)
       \<and> out = reassemble d t
       \<and> row_counts out = series_lengths d"
  then show "tica Kt perm d tdim lag km sy vs B w = Inr (out, ltr, lte)"
    unfolding tica_Inr api_transform_Inr by blast
next
  assume "ae Ka perm d tdim lag n vs B w kw = Inr (out, ltr, lte)"
  then obtain sz data_0 data_lag train test model0 model where a: "create_dataset d 0 = Inr data_0"
    "ae_size d = Inr sz"
    "create_dataset d lag = Inr data_lag"
    "make_loaders perm data_lag vs B = Inr (train, test)"
    "AE Ka sz tdim (ae_args kw) = Inr model0"
    "AE_fit Ka model0 train n test = Inr (model, ltr, lte)"
    "api_transform (AE_transform Ka model) d data_0 B w = Inr out"
    unfolding ae_Inr by blast
  from api_transform_AE [OF a(1,7)] a length_data_0 [OF a(1)]
  show "\<exists>sz data_0 data_lag train test model0 model t.
         ae_size d = Inr sz
       \<and> create_dataset d 0 = Inr data_0
       \<and> length data_0 = sum_list (series_lengths d)
       \<and> create_dataset d lag = Inr data_lag
       \<and> make_loaders perm data_lag vs B = Inr (train, test)
       \<and> AE Ka sz tdim (ae_args kw) = Inr model0
       \<and> AE_fit Ka model0 train n test = Inr (model, ltr, lte)
       \<and> transformed_data (AE_transform Ka model) data_0 B w = Inr t
       \<and> length t = sum_list (series_lengths d)
       \<and> out = reassemble d t
       \<and> row_counts out = series_lengths d"
    by blast
next
  assume "\<exists>sz data_0 data_lag train test model0 model t.
         ae_size d = Inr sz
       \<and> create_dataset d 0 = Inr data_0
       \<and> length data_0 = sum_list (series_lengths d)
       \<and> create_dataset d lag = Inr data_lag
       \<and> make_loaders perm data_lag vs B = Inr (train, test)
       \<and> AE Ka sz tdim (ae_args kw) = Inr model0
       \<and> AE_fit Ka model0 train n test = Inr (model, ltr, lte)
       \<and> transformed_data (AE_transform Ka model) data_0 B w = Inr t
       \<and> length t = sum_list (series_lengths d)
       \<and> out = reassemble d t
       \<and> row_counts out = series_lengths d"
  then show "ae Ka perm d tdim lag n vs B w kw = Inr (out, ltr, lte)"
    unfolding ae_Inr api_transform_Inr by blast
next
  show "series_lengths (Single a) = [shape0 a]"
    by (simp add: series_lengths_def)
next
  show "series_lengths (Multiple ds) = map shape0 ds"
    by (simp add: series_lengths_def)
qed

text \<open>
  The example with lag 1, on the list of two series and on a single series: the lagged
  datasets have three and two samples, the outputs have the row counts 3 and 2 of the
  two series, and 3 of the single one.
\<close>

theorem transform_uses_lag_0_witness:
  "tica ex_tica_kernel [] ex_data (Some 1) 1 True False None 2 False
     = Inr (ArrayList [[[-2], [1], [-2]], [[1], [-(1/2)]]], 3/4, None)
   \<and> ae counting_kernel [] ex_data (Some 1) 1 1 None 2 False Map.empty
     = Inr (ArrayList [[[4], [0], [4]], [[0], [2]]], 3, None)
   \<and> row_counts (ArrayList [[[-2], [1], [-2]], [[1], [-(1/2)]]]) = series_lengths ex_data
   \<and> row_counts (ArrayList [[[4], [0], [4]], [[0], [2]]]) = series_lengths ex_data
   \<and> series_lengths ex_data = [3, 2]
   \<and> create_dataset ex_data 1 = Inr ex_data_lag \<and> length ex_data_lag = 3
   \<and> tica ex_tica_kernel [] ex_single (Some 1) 1 True False None 2 False
     = Inr (Array [[-2], [2], [-2]], 1, None)
   \<and> ae counting_kernel [] ex_single (Some 1) 1 1 None 2 False Map.empty
     = Inr (Array [[3], [-1], [3]], 2, None)
   \<and> row_counts (Array [[-2], [2], [-2]]) = series_lengths ex_single
   \<and> row_counts (Array [[3], [-1], [3]]) = series_lengths ex_single
   \<and> series_lengths ex_single = [3]
   \<and> create_dataset ex_single 1 = Inr ex_train_lag \<and> length ex_train_lag = 2"
proof -
  from transform_uses_lag_0 [THEN conjunct1, THEN iffD1, OF ex_tica_plain]
  have 1: "row_counts (ArrayList [[[-2], [1], [-2]], [[1], [-(1/2)]]]) = series_lengths ex_data"
    by blast
  from transform_uses_lag_0 [THEN conjunct2, THEN conjunct1, THEN iffD1, OF ex_ae_plain]
  have 2: "row_counts (ArrayList [[[4], [0], [4]], [[0], [2]]]) = series_lengths ex_data"
    by blast
  from transform_uses_lag_0 [THEN conjunct1, THEN iffD1, OF ex_tica_single]
  have 3: "row_counts (Array [[-2], [2], [-2]]) = series_lengths ex_single"
    by blast
  from transform_uses_lag_0 [THEN conjunct2, THEN conjunct1, THEN iffD1, OF ex_ae_single]
  have 4: "row_counts (Array [[3], [-1], [3]]) = series_lengths ex_single"
    by blast
  have 5: "create_dataset ex_data 1 = Inr ex_data_lag" "length ex_data_lag = 3"
    "create_dataset ex_single 1 = Inr ex_train_lag" "length ex_train_lag = 2"
    using ex_create_lag ex_single_create_lag by (simp_all add: ex_data_lag_def ex_train_lag_def)
  from 1 2 3 4 5 ex_tica_plain ex_ae_plain ex_tica_single ex_ae_single ex_lengths
    ex_single_lengths
  show ?thesis by (intro conjI) assumption+
qed

text \<open>
  C2. For every call of \<open>pca\<close>, \<open>tica\<close> or \<open>ae\<close>: when the input is a list (or tuple) of
  series of lengths \<open>T_1, ..., T_k\<close>, the returned value is a list of \<open>k\<close> arrays, the
  \<open>i\<close>-th being the contiguous slice of the concatenated transformed output that starts
  at the offset \<open>T_1 + ... + T_{i-1}\<close> and has exactly \<open>T_i\<close> rows, in input order; when
  the input is a single array, the transformed output is returned as one array. The
  slicing loop of \<open>_transform\<close> computes what \<open>reassemble\<close> states, for both forms of
  the input, and a call returns exactly when its stages succeed, with the reassembled
  output of the transform as its value.
\<close>

theorem result_reassembled:
  "api_transform mt d data_0 B w
     = ebind (transformed_data mt data_0 B w) (\<lambda>t. Inr (reassemble d t))
   \<and> reassemble (Single a) t = Array t
   \<and> reassemble (Multiple ds) t = ArrayList (collect t 0 (map shape0 ds))
   \<and> (pca Kp perm d tdim vs B w = Inr (out, ltr, lte) \<longleftrightarrow>
      (\<exists>data_0 train test model t.
         create_dataset d 0 = Inr data_0
       \<and> make_loaders perm data_0 vs B = Inr (train, test)
       \<and> PCA_fit Kp train tdim test = Inr (model, ltr, lte)
       \<and> transformed_data (linear_transform model) data_0 B w = Inr t
       \<and> length t = sum_list (series_lengths d)
       \<and> out = reassemble d t
       \<and> row_counts out = series_lengths d))
   \<and> (tica Kt perm d tdim lag km sy vs B w = Inr (out, ltr, lte) \<longleftrightarrow>
      (\<exists>data_0 data_lag train test model t.
         create_dataset d 0 = Inr data_0
       \<and> create_dataset d lag = Inr data_lag
       \<and> make_loaders perm data_lag vs B = Inr (train, test)
       \<and> TICA_fit Kt km sy train tdim test = Inr (model, ltr, lte)
       \<and> transformed_data (linear_transform model) data_0 B w = Inr t
       \<and> length t = sum_list (series_lengths d)
       \<and> out = reassemble d t
       \<and> row_counts out = series_lengths d))
   \<and> (ae Ka perm d tdim lag n vs B w kw = Inr (out, ltr, lte) \<longleftrightarrow>
      (\<exists>sz data_0 data_lag train test model0 model t.
         ae_size d = Inr sz
       \<and> create_dataset d 0 = Inr data_0
       \<and> create_dataset d lag = Inr data_lag
       \<and> make_loaders perm data_lag vs B = Inr (train, test)
       \<and> AE Ka sz tdim (ae_args kw) = Inr model0
       \<and> AE_fit Ka model0 train n test = Inr (model, ltr, lte)
       \<and> transformed_data (AE_transform Ka model) data_0 B w = Inr t
       \<and> length t = sum_list (series_lengths d)
       \<and> out = reassemble d t
       \<and> row_counts out = series_lengths d))"
proof (intro conjI iffI)
  show "api_transform mt d data_0 B w
     = ebind (transformed_data mt data_0 B w) (\<lambda>t. Inr (reassemble d t))"
    by (cases d) (simp_all add: api_transform_def collect_reassemble reassemble_def)
next
  show "reassemble (Single a) t = Array t"
    by (simp add: reassemble_def)
next
  show "reassemble (Multiple ds) t = ArrayList (collect t 0 (map shape0 ds))"
    by (rule collect_reassemble [symmetric])
next
  assume "pca Kp perm d tdim vs B w = Inr (out, ltr, lte)"
  then obtain data_0 train test model where a: "create_dataset d 0 = Inr data_0"
    "make_loaders perm data_0 vs B = Inr (train, test)"
    "PCA_fit Kp train tdim test = Inr (model, ltr, lte)"
    "api_transform (linear_transform model) d data_0 B w = Inr out"
    unfolding pca_Inr by blast
  from api_transform_linear [OF a(1,4)] a
  show "\<exists>data_0 train test model t.
         create_dataset d 0 = Inr data_0
       \<and> make_loaders perm data_0 vs B = Inr (train, test)
       \<and> PCA_fit Kp train tdim test = Inr (model, ltr, lte)
       \<and> transformed_data (linear_transform model) data_0 B w = Inr t
       \<and> length t = sum_list (series_lengths d)
       \<and> out = reassemble d t
       \<and> row_counts out = series_lengths d"
    by blast
next
  assume "\<exists>data_0 train test model t.
         create_dataset d 0 = Inr data_0
       \<and> make_loaders perm data_0 vs B = Inr (train, test)
       \<and> PCA_fit Kp train tdim test = Inr (model, ltr, lte)
       \<and> transformed_data (linear_transform model) data_0 B w = Inr t
       \<and> length t = sum_list (series_lengths d)
       \<and> out = reassemble d t
       \<and> row_counts out = series_lengths d"
  then show "pca Kp perm d tdim vs B w = Inr (out, ltr, lte)"
    unfolding pca_Inr api_transform_Inr by blast
next
  assume "tica Kt perm d tdim lag km sy vs B w = Inr (out, ltr, lte)"
  then obtain data_0 data_lag train test model where a: "create_dataset d 0 = Inr data_0"
    "create_dataset d lag = Inr data_lag"
    "make_loaders perm data_lag vs B = Inr (train, test)"
    "TICA_fit Kt km sy train tdim test = Inr (model, ltr, lte)"
    "api_transform (linear_transform model) d data_0 B w = Inr out"
    unfolding tica_Inr by blast
  from api_transform_linear [OF a(1,5)] a
  show "\<exists>data_0 data_lag train test model t.
         create_dataset d 0 = Inr data_0
       \<and> create_dataset d lag = Inr data_lag
       \<and> make_loaders perm data_lag vs B = Inr (train, test)
       \<and> TICA_fit Kt km sy train tdim test = Inr (model, ltr, lte)
       \<and> transformed_data (linear_transform model) data_0 B w = Inr t
       \<and> length t = sum_list (series_lengths d)
       \<and> out = reassemble d t
       \<and> row_counts out = series_lengths d"
    by blast
next
  assume "\<exists>data_0 data_lag train test model t.
         create_dataset d 0 = Inr data_0
       \<and> create_dataset d lag = Inr data_lag
       \<and> make_loaders perm data_lag vs B = Inr (train, test)
       \<and> TICA_fit Kt km sy train tdim test = Inr (model, ltr, lte)
       \<and> transformed_data (linear_transform model) data_0 B w = Inr t
       \<and> length t = sum_list (series_lengths d)
       \<and> out = reassemble d t
       \<and> row_counts out = series_lengths d"
  then show "tica Kt perm d tdim lag km sy vs B w = Inr (out, ltr, lte)"
    unfolding tica_Inr api_transform_Inr by blast
next
  assume "ae Ka perm d tdim lag n vs B w kw = Inr (out, ltr, lte)"
  then obtain sz data_0 data_lag train test model0 model where a: "create_dataset d 0 = Inr data_0"
    "ae_size d = Inr sz"
    "create_dataset d lag = Inr data_lag"
    "make_loaders perm data_lag vs B = Inr (train, test)"
    "AE Ka sz tdim (ae_args kw) = Inr model0"
    "AE_fit Ka model0 train n test = Inr (model, ltr, lte)"
    "api_transform (AE_transform Ka model) d data_0 B w = Inr out"
    unfolding ae_Inr by blast
  from api_transform_AE [OF a(1,7)] a
  show "\<exists>sz data_0 data_lag train test model0 model t.
         ae_size d = Inr sz
       \<and> create_dataset d 0 = Inr data_0
       \<and> create_dataset d lag = Inr data_lag
       \<and> make_loaders perm data_lag vs B = Inr (train, test)
       \<and> AE Ka sz tdim (ae_args kw) = Inr model0
       \<and> AE_fit Ka model0 train n test = Inr (model, ltr, lte)
       \<and> transformed_data (AE_transform Ka model) data_0 B w = Inr t
       \<and> length t = sum_list (series_lengths d)
       \<and> out = reassemble d t
       \<and> row_counts out = series_lengths d"
    by blast
next
  assume "\<exists>sz data_0 data_lag train test model0 model t.
         ae_size d = Inr sz
       \<and> create_dataset d 0 = Inr data_0
       \<and> create_dataset d lag = Inr data_lag
       \<and> make_loaders perm data_lag vs B = Inr (train, test)
       \<and> AE Ka sz tdim (ae_args kw) = Inr model0
       \<and> AE_fit Ka model0 train n test = Inr (model, ltr, lte)
       \<and> transformed_data (AE_transform Ka model) data_0 B w = Inr t
       \<and> length t = sum_list (series_lengths d)
       \<and> out = reassemble d t
       \<and> row_counts out = series_lengths d"
  then show "ae Ka perm d tdim lag n vs B w kw = Inr (out, ltr, lte)"
    unfolding ae_Inr api_transform_Inr by blast
qed

text \<open>
  The runs of the example on the list of two series (five transformed rows, cut after
  the third) and on the single series (one array of three rows).
\<close>

theorem result_reassembled_witness:
  "pca ex_pca_kernel [] ex_data (Some 1) None 2 False
     = Inr (ArrayList [[[2], [-2], [2]], [[-2], [0]]], - (16/5), None)
   \<and> tica ex_tica_kernel [] ex_data (Some 1) 1 True False None 2 False
     = Inr (ArrayList [[[-2], [1], [-2]], [[1], [-(1/2)]]], 3/4, None)
   \<and> ae counting_kernel [] ex_data (Some 1) 1 1 None 2 False Map.empty
     = Inr (ArrayList [[[4], [0], [4]], [[0], [2]]], 3, None)
   \<and> (\<exists>t. length t = 5 \<and> ArrayList [[[2], [-2], [2]], [[-2], [0]]] = reassemble ex_data t)
   \<and> (\<exists>t. length t = 5 \<and> ArrayList [[[-2], [1], [-2]], [[1], [-(1/2)]]] = reassemble ex_data t)
   \<and> (\<exists>t. length t = 5 \<and> ArrayList [[[4], [0], [4]], [[0], [2]]] = reassemble ex_data t)
   \<and> reassemble ex_data [[2], [-2], [2], [-2], [0]] = ArrayList [[[2], [-2], [2]], [[-2], [0]]]
   \<and> pca ex_pca_kernel [] ex_single (Some 1) None 2 False
     = Inr (Array [[4/3], [-(8/3)], [4/3]], - (32/9), None)
   \<and> tica ex_tica_kernel [] ex_single (Some 1) 1 True False None 2 False
     = Inr (Array [[-2], [2], [-2]], 1, None)
   \<and> ae counting_kernel [] ex_single (Some 1) 1 1 None 2 False Map.empty
     = Inr (Array [[3], [-1], [3]], 2, None)
   \<and> (\<exists>t. length t = 3 \<and> Array [[4/3], [-(8/3)], [4/3]] = reassemble ex_single t)
   \<and> (\<exists>t. length t = 3 \<and> Array [[-2], [2], [-2]] = reassemble ex_single t)
   \<and> (\<exists>t. length t = 3 \<and> Array [[3], [-1], [3]] = reassemble ex_single t)
   \<and> api_transform (linear_transform ex_pca_model_single) ex_single ex_single_0 2 False
     = Inr (Array [[4/3], [-(8/3)], [4/3]])
   \<and> reassemble ex_single [[4/3], [-(8/3)], [4/3]] = Array [[4/3], [-(8/3)], [4/3]]"
proof -
  note pca_iff = result_reassembled [THEN conjunct2, THEN conjunct2, THEN conjunct2,
    THEN conjunct1, THEN iffD1]
  note tica_iff = result_reassembled [THEN conjunct2, THEN conjunct2, THEN conjunct2,
    THEN conjunct2, THEN conjunct1, THEN iffD1]
  note ae_iff = result_reassembled [THEN conjunct2, THEN conjunct2, THEN conjunct2,
    THEN conjunct2, THEN conjunct2, THEN iffD1]
  have r: "reassemble ex_data [[2], [-2], [2], [-2], [0]] = ArrayList [[[2], [-2], [2]], [[-2], [0]]]"
    by (simp add: collect_reassemble [symmetric] ex_data_def ex_series_a_def ex_series_b_def
        shape0_def)
  have rs: "reassemble ex_single [[4/3], [-(8/3)], [4/3]] = Array [[4/3], [-(8/3)], [4/3]]"
    unfolding ex_single_def by (rule result_reassembled [THEN conjunct2, THEN conjunct1])
  have td: "transformed_data (linear_transform ex_pca_model_single) ex_single_0 2 False
            = Inr [[4/3], [-(8/3)], [4/3]]"
    by (simp add: transformed_data_def ex_loader ex_pca_transform_single)
  have at: "api_transform (linear_transform ex_pca_model_single) ex_single ex_single_0 2 False
            = Inr (Array [[4/3], [-(8/3)], [4/3]])"
    unfolding result_reassembled [THEN conjunct1] td by (simp add: rs)
  from pca_iff [OF ex_pca_plain] ex_lengths
  have 1: "\<exists>t. length t = 5 \<and> ArrayList [[[2], [-2], [2]], [[-2], [0]]] = reassemble ex_data t"
    by simp blast
  from tica_iff [OF ex_tica_plain] ex_lengths
  have 2: "\<exists>t. length t = 5 \<and> ArrayList [[[-2], [1], [-2]], [[1], [-(1/2)]]] = reassemble ex_data t"
    by simp blast
  from ae_iff [OF ex_ae_plain] ex_lengths
  have 3: "\<exists>t. length t = 5 \<and> ArrayList [[[4], [0], [4]], [[0], [2]]] = reassemble ex_data t"
    by simp blast
  from pca_iff [OF ex_pca_single] ex_single_lengths
  have 4: "\<exists>t. length t = 3 \<and> Array [[4/3], [-(8/3)], [4/3]] = reassemble ex_single t"
    by simp blast
  from tica_iff [OF ex_tica_single] ex_single_lengths
  have 5: "\<exists>t. length t = 3 \<and> Array [[-2], [2], [-2]] = reassemble ex_single t"
    by simp blast
  from ae_iff [OF ex_ae_single] ex_single_lengths
  have 6: "\<exists>t. length t = 3 \<and> Array [[3], [-1], [3]] = reassemble ex_single t"
    by simp blast
  from 1 2 3 4 5 6 r rs at ex_pca_plain ex_tica_plain ex_ae_plain ex_pca_single
    ex_tica_single ex_ae_single
  show ?thesis by (intro conjI) assumption+
qed

section \<open>Order of the batches and of the transformed rows\<close>

text \<open>
  C3. The batch iterator used for the transform yields batches of consecutive samples
  in the order of the dataset, without reshuffling, and a pass is a function of the
  loader alone, so that repeated passes agree; hence the rows of the transformed output
  are in the order of the input rows. The first part is about the loader: its batches,
  concatenated, are the dataset, every batch has between one and \<open>B\<close> samples, and all
  but the last have \<open>B\<close>. The other parts are about the three entry points: the output is
  the input with every observation replaced, in place, by its image under the fitted
  model (divided column by column by the standard deviations when \<open>whiten\<close> is set).
\<close>

theorem transform_preserves_row_order:
  "(DataLoader ds B = Inr l \<longrightarrow>
      concat (batches l) = ds
    \<and> (\<forall>b\<in>set (batches l). 0 < length b \<and> length b \<le> B)
    \<and> (\<forall>b\<in>set (butlast (batches l)). length b = B))
   \<and> (pca Kp perm d tdim vs B w = Inr (out, ltr, lte) \<longrightarrow>
      (\<exists>train test model.
         PCA_fit Kp train tdim test = Inr (model, ltr, lte)
       \<and> (if w
          then out = map_rows (\<lambda>x. map2 (/) (project model x)
                                 (stds (map (project model) (all_rows d)))) d
          else out = map_rows (project model) d)))
   \<and> (tica Kt perm d tdim lag km sy vs B w = Inr (out, ltr, lte) \<longrightarrow>
      (\<exists>train test model.
         TICA_fit Kt km sy train tdim test = Inr (model, ltr, lte)
       \<and> (if w
          then out = map_rows (\<lambda>x. map2 (/) (project model x)
                                 (stds (map (project model) (all_rows d)))) d
          else out = map_rows (project model) d)))
   \<and> (ae Ka perm d tdim lag n vs B w kw = Inr (out, ltr, lte) \<longrightarrow>
      (\<exists>train test model0 model.
         AE_fit Ka model0 train n test = Inr (model, ltr, lte)
       \<and> (if w
          then out = map_rows (\<lambda>x. map2 (/) (ae_encode Ka (params model) x)
                                 (stds (map (ae_encode Ka (params model)) (all_rows d)))) d
          else out = map_rows (ae_encode Ka (params model)) d)))"
proof (intro conjI impI)
  assume a: "DataLoader ds B = Inr l"
  show "concat (batches l) = ds"
    and "\<forall>b\<in>set (batches l). 0 < length b \<and> length b \<le> B"
    and "\<forall>b\<in>set (butlast (batches l)). length b = B"
    by (rule batches_bounds [OF a])+
next
  assume "pca Kp perm d tdim vs B w = Inr (out, ltr, lte)"
  then obtain data_0 train test model where a: "create_dataset d 0 = Inr data_0"
    "PCA_fit Kp train tdim test = Inr (model, ltr, lte)"
    "api_transform (linear_transform model) d data_0 B w = Inr out"
    by (auto simp: pca_Inr)
  from api_transform_linear_rows [OF a(1,3)] a(2)
  show "\<exists>train test model.
         PCA_fit Kp train tdim test = Inr (model, ltr, lte)
       \<and> (if w
          then out = map_rows (\<lambda>x. map2 (/) (project model x)
                                 (stds (map (project model) (all_rows d)))) d
          else out = map_rows (project model) d)"
    by blast
next
  assume "tica Kt perm d tdim lag km sy vs B w = Inr (out, ltr, lte)"
  then obtain data_0 train test model where a: "create_dataset d 0 = Inr data_0"
    "TICA_fit Kt km sy train tdim test = Inr (model, ltr, lte)"
    "api_transform (linear_transform model) d data_0 B w = Inr out"
    by (auto simp: tica_Inr)
  from api_transform_linear_rows [OF a(1,3)] a(2)
  show "\<exists>train test model.
         TICA_fit Kt km sy train tdim test = Inr (model, ltr, lte)
       \<and> (if w
          then out = map_rows (\<lambda>x. map2 (/) (project model x)
                                 (stds (map (project model) (all_rows d)))) d
          else out = map_rows (project model) d)"
    by blast
next
  assume "ae Ka perm d tdim lag n vs B w kw = Inr (out, ltr, lte)"
  then obtain data_0 train test model0 model where a: "create_dataset d 0 = Inr data_0"
    "AE_fit Ka model0 train n test = Inr (model, ltr, lte)"
    "api_transform (AE_transform Ka model) d data_0 B w = Inr out"
    by (auto simp: ae_Inr)
  from api_transform_AE_rows [OF a(1,3)] a(2)
  show "\<exists>train test model0 model.
         AE_fit Ka model0 train n test = Inr (model, ltr, lte)
       \<and> (if w
          then out = map_rows (\<lambda>x. map2 (/) (ae_encode Ka (params model) x)
                                 (stds (map (ae_encode Ka (params model)) (all_rows d)))) d
          else out = map_rows (ae_encode Ka (params model)) d)"
    by blast
qed

text \<open>The example: three batches of sizes 2, 2 and 1, and the three runs.\<close>

theorem transform_preserves_row_order_witness:
  "DataLoader ex_data_0 2 = Inr \<lparr>ld_dataset = ex_data_0, ld_batch_size = 2\<rparr>
   \<and> batches \<lparr>ld_dataset = ex_data_0, ld_batch_size = 2\<rparr>
       = [[([2], [2]), ([-2], [-2])], [([2], [2]), ([-2], [-2])], [([0], [0])]]
   \<and> concat (batches \<lparr>ld_dataset = ex_data_0, ld_batch_size = 2\<rparr>) = ex_data_0
   \<and> list_all (\<lambda>b. 0 < length b \<and> length b \<le> 2)
         (batches \<lparr>ld_dataset = ex_data_0, ld_batch_size = 2\<rparr>)
   \<and> list_all (\<lambda>b. length b = 2)
         (butlast (batches \<lparr>ld_dataset = ex_data_0, ld_batch_size = 2\<rparr>))
   \<and> pca ex_pca_kernel [] ex_data (Some 1) None 2 False
       = Inr (ArrayList [[[2], [-2], [2]], [[-2], [0]]], - (16/5), None)
   \<and> (\<exists>model. ArrayList [[[2], [-2], [2]], [[-2], [0]]] = map_rows (project model) ex_data)
   \<and> tica ex_tica_kernel [] ex_data (Some 1) 1 True False None 2 False
       = Inr (ArrayList [[[-2], [1], [-2]], [[1], [-(1/2)]]], 3/4, None)
   \<and> (\<exists>model. ArrayList [[[-2], [1], [-2]], [[1], [-(1/2)]]] = map_rows (project model) ex_data)
   \<and> ae counting_kernel [] ex_data (Some 1) 1 1 None 2 False Map.empty
       = Inr (ArrayList [[[4], [0], [4]], [[0], [2]]], 3, None)
   \<and> (\<exists>model :: nat ae_model. ArrayList [[[4], [0], [4]], [[0], [2]]]
          = map_rows (ae_encode counting_kernel (params model)) ex_data)
   \<and> map_rows (project ex_pca_model) ex_data = ArrayList [[[2], [-2], [2]], [[-2], [0]]]"
proof -
  note l = transform_preserves_row_order [THEN conjunct1, THEN mp, OF ex_loader [of ex_data_0]]
  have m: "map_rows (project ex_pca_model) ex_data = ArrayList [[[2], [-2], [2]], [[-2], [0]]]"
    by (simp add: map_rows_def ex_data_def ex_series_a_def ex_series_b_def project_def
        ex_pca_model_def vec_mat_def vsub_def vscale_def vsum_def vadd_def)
  from transform_preserves_row_order
    [THEN conjunct2, THEN conjunct1, THEN mp, OF ex_pca_plain]
  have p: "\<exists>model. ArrayList [[[2], [-2], [2]], [[-2], [0]]] = map_rows (project model) ex_data"
    by auto
  from transform_preserves_row_order
    [THEN conjunct2, THEN conjunct2, THEN conjunct1, THEN mp, OF ex_tica_plain]
  have t: "\<exists>model. ArrayList [[[-2], [1], [-2]], [[1], [-(1/2)]]] = map_rows (project model) ex_data"
    by auto
  from transform_preserves_row_order
    [THEN conjunct2, THEN conjunct2, THEN conjunct2, THEN mp, OF ex_ae_plain]
  have a: "\<exists>model :: nat ae_model. ArrayList [[[4], [0], [4]], [[0], [2]]]
          = map_rows (ae_encode counting_kernel (params model)) ex_data"
    by auto
  from l have "concat (batches \<lparr>ld_dataset = ex_data_0, ld_batch_size = 2\<rparr>) = ex_data_0"
    and "list_all (\<lambda>b. 0 < length b \<and> length b \<le> 2)
           (batches \<lparr>ld_dataset = ex_data_0, ld_batch_size = 2\<rparr>)"
    and "list_all (\<lambda>b. length b = 2)
           (butlast (batches \<lparr>ld_dataset = ex_data_0, ld_batch_size = 2\<rparr>))"
    unfolding list_all_iff by blast+
  with m p t a ex_loader [of ex_data_0] ex_batches_0 ex_pca_plain ex_tica_plain ex_ae_plain
  show ?thesis by (intro conjI) assumption+
qed

section \<open>Validation split\<close>

text \<open>
  C4. For every call of \<open>pca\<close>, \<open>tica\<close> or \<open>ae\<close> without a validation split
  (\<open>validation_split\<close> is \<open>None\<close>) that returns: no split is performed, so the result
  does not depend on the random draw; the whole dataset is the dataset of the training
  loader; the fit receives no test loader; the returned \<open>test_loss\<close> is absent, and
  \<open>train_loss\<close> is a number.
\<close>

theorem no_split_without_validation:
  "(pca Kp perm d tdim None B w = Inr (out, ltr, lte) \<longrightarrow>
      lte = None
    \<and> (\<exists>data_0 train model.
         create_dataset d 0 = Inr data_0
       \<and> DataLoader data_0 B = Inr train
       \<and> PCA_fit Kp train tdim None = Inr (model, ltr, None)))
   \<and> (tica Kt perm d tdim lag km sy None B w = Inr (out, ltr, lte) \<longrightarrow>
      lte = None
    \<and> (\<exists>data_lag train model.
         create_dataset d lag = Inr data_lag
       \<and> DataLoader data_lag B = Inr train
       \<and> TICA_fit Kt km sy train tdim None = Inr (model, ltr, None)))
   \<and> (ae Ka perm d tdim lag n None B w kw = Inr (out, ltr, lte) \<longrightarrow>
      lte = None
    \<and> (\<exists>data_lag train model0 model.
         create_dataset d lag = Inr data_lag
       \<and> DataLoader data_lag B = Inr train
       \<and> AE_fit Ka model0 train n None = Inr (model, ltr, None)))
   \<and> pca Kp perm d tdim None B w = pca Kp perm' d tdim None B w
   \<and> tica Kt perm d tdim lag km sy None B w = tica Kt perm' d tdim lag km sy None B w
   \<and> ae Ka perm d tdim lag n None B w kw = ae Ka perm' d tdim lag n None B w kw"
proof (intro conjI impI)
  assume "pca Kp perm d tdim None B w = Inr (out, ltr, lte)"
  then obtain data_0 train model where a: "create_dataset d 0 = Inr data_0"
    "DataLoader data_0 B = Inr train" "PCA_fit Kp train tdim None = Inr (model, ltr, lte)"
    by (auto simp: pca_Inr make_loaders_None)
  from PCA_fit_no_test [OF a(3)] show "lte = None" .
  with a show "\<exists>data_0 train model.
         create_dataset d 0 = Inr data_0
       \<and> DataLoader data_0 B = Inr train
       \<and> PCA_fit Kp train tdim None = Inr (model, ltr, None)"
    by blast
next
  assume "tica Kt perm d tdim lag km sy None B w = Inr (out, ltr, lte)"
  then obtain data_lag train model where a: "create_dataset d lag = Inr data_lag"
    "DataLoader data_lag B = Inr train" "TICA_fit Kt km sy train tdim None = Inr (model, ltr, lte)"
    by (auto simp: tica_Inr make_loaders_None)
  from TICA_fit_no_test [OF a(3)] show "lte = None" .
  with a show "\<exists>data_lag train model.
         create_dataset d lag = Inr data_lag
       \<and> DataLoader data_lag B = Inr train
       \<and> TICA_fit Kt km sy train tdim None = Inr (model, ltr, None)"
    by blast
next
  assume "ae Ka perm d tdim lag n None B w kw = Inr (out, ltr, lte)"
  then obtain data_lag train model0 model where a: "create_dataset d lag = Inr data_lag"
    "DataLoader data_lag B = Inr train" "AE_fit Ka model0 train n None = Inr (model, ltr, lte)"
    by (auto simp: ae_Inr make_loaders_None)
  from AE_fit_no_test [OF a(3)] show "lte = None" .
  with a show "\<exists>data_lag train model0 model.
         create_dataset d lag = Inr data_lag
       \<and> DataLoader data_lag B = Inr train
       \<and> AE_fit Ka model0 train n None = Inr (model, ltr, None)"
    by blast
next
  show "pca Kp perm d tdim None B w = pca Kp perm' d tdim None B w"
    by (simp add: pca_def make_loaders_None_perm [of perm _ _ perm'])
  show "tica Kt perm d tdim lag km sy None B w = tica Kt perm' d tdim lag km sy None B w"
    by (simp add: tica_def make_loaders_None_perm [of perm _ _ perm'])
  show "ae Ka perm d tdim lag n None B w kw = ae Ka perm' d tdim lag n None B w kw"
    by (simp add: ae_def make_loaders_None_perm [of perm _ _ perm'])
qed

text \<open>The three runs of the example without a split.\<close>

theorem no_split_without_validation_witness:
  "pca ex_pca_kernel [] ex_data (Some 1) None 2 False
     = Inr (ArrayList [[[2], [-2], [2]], [[-2], [0]]], - (16/5), None)
   \<and> tica ex_tica_kernel [] ex_data (Some 1) 1 True False None 2 False
     = Inr (ArrayList [[[-2], [1], [-2]], [[1], [-(1/2)]]], 3/4, None)
   \<and> ae counting_kernel [] ex_data (Some 1) 1 1 None 2 False Map.empty
     = Inr (ArrayList [[[4], [0], [4]], [[0], [2]]], 3, None)
   \<and> (\<exists>data_0 train model.
         create_dataset ex_data 0 = Inr data_0
       \<and> DataLoader data_0 2 = Inr train
       \<and> PCA_fit ex_pca_kernel train (Some 1) None = Inr (model, - (16/5), None))
   \<and> (\<exists>data_lag train model.
         create_dataset ex_data 1 = Inr data_lag
       \<and> DataLoader data_lag 2 = Inr train
       \<and> TICA_fit ex_tica_kernel True False train (Some 1) None = Inr (model, 3/4, None))
   \<and> (\<exists>data_lag train model0 model.
         create_dataset ex_data 1 = Inr data_lag
       \<and> DataLoader data_lag 2 = Inr train
       \<and> AE_fit counting_kernel model0 train 1 None = Inr (model, 3, None))
   \<and> pca ex_pca_kernel ex_perm_5 ex_data (Some 1) None 2 False
     = Inr (ArrayList [[[2], [-2], [2]], [[-2], [0]]], - (16/5), None)"
proof -
  note p = no_split_without_validation [THEN conjunct1, THEN mp, OF ex_pca_plain]
  note t = no_split_without_validation
    [THEN conjunct2, THEN conjunct1, THEN mp, OF ex_tica_plain]
  note a = no_split_without_validation
    [THEN conjunct2, THEN conjunct2, THEN conjunct1, THEN mp, OF ex_ae_plain]
  have "pca ex_pca_kernel ex_perm_5 ex_data (Some 1) None 2 False
        = pca ex_pca_kernel [] ex_data (Some 1) None 2 False"
    by (rule no_split_without_validation
        [THEN conjunct2, THEN conjunct2, THEN conjunct2, THEN conjunct1])
  with p t a ex_pca_plain ex_tica_plain ex_ae_plain show ?thesis by simp
qed

text \<open>
  C5. For a dataset of size \<open>N\<close> and a fraction \<open>f\<close> strictly between 0 and 1 passed
  as \<open>validation_split\<close>, the splitter returns two subsets, validation first and train
  second, that are disjoint, whose sizes add up to \<open>N\<close>, in which every index of the
  dataset occurs exactly once, and where the validation part has \<open>round (f * N)\<close>
  elements; the validation part is the one that the fit receives as \<open>test_loader\<close>.
  The splitter returns exactly when \<open>f\<close> is in the open interval and neither part is
  empty (otherwise it fails with \<open>InvalidFractionError\<close>); its random draw is a
  permutation of the indices.
\<close>

theorem split_partitions_dataset:
  "(is_permutation perm (length ds) \<and> random_split perm ds f = Inr (v, t) \<longrightarrow>
      0 < f \<and> f < 1 \<and> base v = ds \<and> base t = ds
    \<and> indices v @ indices t = perm
    \<and> set (indices v) \<inter> set (indices t) = {}
    \<and> set (indices v) \<union> set (indices t) = {0..<length ds}
    \<and> distinct (indices v) \<and> distinct (indices t)
    \<and> length (subset_items v) + length (subset_items t) = length ds
    \<and> int (length (subset_items v)) = round (f * real (length ds)))
   \<and> ((\<exists>v t. random_split perm ds f = Inr (v, t)) \<longleftrightarrow>
        0 < f \<and> f < 1 \<and> 0 < n_active f (length ds) \<and> n_active f (length ds) < length ds)
   \<and> (pca Kp perm d tdim (Some f) B w = Inr (out, ltr, lte) \<longrightarrow>
      (\<exists>data_0 v t train_loader test_loader model.
         create_dataset d 0 = Inr data_0
       \<and> random_split perm data_0 f = Inr (v, t)
       \<and> DataLoader (subset_items t) B = Inr train_loader
       \<and> DataLoader (subset_items v) B = Inr test_loader
       \<and> PCA_fit Kp train_loader tdim (Some test_loader) = Inr (model, ltr, lte)))
   \<and> (tica Kt perm d tdim lag km sy (Some f) B w = Inr (out, ltr, lte) \<longrightarrow>
      (\<exists>data_lag v t train_loader test_loader model.
         create_dataset d lag = Inr data_lag
       \<and> random_split perm data_lag f = Inr (v, t)
       \<and> DataLoader (subset_items t) B = Inr train_loader
       \<and> DataLoader (subset_items v) B = Inr test_loader
       \<and> TICA_fit Kt km sy train_loader tdim (Some test_loader) = Inr (model, ltr, lte)))
   \<and> (ae Ka perm d tdim lag n (Some f) B w kw = Inr (out, ltr, lte) \<longrightarrow>
      (\<exists>data_lag v t train_loader test_loader model0 model.
         create_dataset d lag = Inr data_lag
       \<and> random_split perm data_lag f = Inr (v, t)
       \<and> DataLoader (subset_items t) B = Inr train_loader
       \<and> DataLoader (subset_items v) B = Inr test_loader
       \<and> AE_fit Ka model0 train_loader n (Some test_loader) = Inr (model, ltr, lte)))"
proof (intro conjI impI)
  assume a: "is_permutation perm (length ds) \<and> random_split perm ds f = Inr (v, t)"
  then have p: "is_permutation perm (length ds)" and s: "random_split perm ds f = Inr (v, t)"
    by simp_all
  from s show "0 < f" "f < 1" "base v = ds" "base t = ds"
    by (simp_all add: random_split_Inr)
  from split_parts [OF p s]
  show "indices v @ indices t = perm"
    and "set (indices v) \<inter> set (indices t) = {}"
    and "set (indices v) \<union> set (indices t) = {0..<length ds}"
    and "distinct (indices v)" and "distinct (indices t)"
    and "length (subset_items v) + length (subset_items t) = length ds"
    and "int (length (subset_items v)) = round (f * real (length ds))"
    by blast+
next
  show "(\<exists>v t. random_split perm ds f = Inr (v, t)) \<longleftrightarrow>
        0 < f \<and> f < 1 \<and> 0 < n_active f (length ds) \<and> n_active f (length ds) < length ds"
    by (auto simp: random_split_Inr)
next
  assume "pca Kp perm d tdim (Some f) B w = Inr (out, ltr, lte)"
  then show "\<exists>data_0 v t train_loader test_loader model.
         create_dataset d 0 = Inr data_0
       \<and> random_split perm data_0 f = Inr (v, t)
       \<and> DataLoader (subset_items t) B = Inr train_loader
       \<and> DataLoader (subset_items v) B = Inr test_loader
       \<and> PCA_fit Kp train_loader tdim (Some test_loader) = Inr (model, ltr, lte)"
    unfolding pca_Inr make_loaders_Some by blast
next
  assume "tica Kt perm d tdim lag km sy (Some f) B w = Inr (out, ltr, lte)"
  then show "\<exists>data_lag v t train_loader test_loader model.
         create_dataset d lag = Inr data_lag
       \<and> random_split perm data_lag f = Inr (v, t)
       \<and> DataLoader (subset_items t) B = Inr train_loader
       \<and> DataLoader (subset_items v) B = Inr test_loader
       \<and> TICA_fit Kt km sy train_loader tdim (Some test_loader) = Inr (model, ltr, lte)"
    unfolding tica_Inr make_loaders_Some by blast
next
  assume "ae Ka perm d tdim lag n (Some f) B w kw = Inr (out, ltr, lte)"
  then show "\<exists>data_lag v t train_loader test_loader model0 model.
         create_dataset d lag = Inr data_lag
       \<and> random_split perm data_lag f = Inr (v, t)
       \<and> DataLoader (subset_items t) B = Inr train_loader
       \<and> DataLoader (subset_items v) B = Inr test_loader
       \<and> AE_fit Ka model0 train_loader n (Some test_loader) = Inr (model, ltr, lte)"
    unfolding ae_Inr make_loaders_Some by blast
qed

text \<open>The example: five samples, fraction 2/5, and the three runs with a split.\<close>

theorem split_partitions_dataset_witness:
  "is_permutation ex_perm_5 (length ex_data_0)
   \<and> random_split ex_perm_5 ex_data_0 (2/5)
       = Inr (\<lparr>base = ex_data_0, indices = [3, 1]\<rparr>, \<lparr>base = ex_data_0, indices = [4, 0, 2]\<rparr>)
   \<and> set [3, 1] \<inter> set [4, 0, 2] = ({} :: nat set)
   \<and> set [3, 1] \<union> set [4, 0, 2] = {0..<length ex_data_0}
   \<and> length (subset_items \<lparr>base = ex_data_0, indices = [3, 1]\<rparr>)
       + length (subset_items \<lparr>base = ex_data_0, indices = [4, 0, 2]\<rparr>) = length ex_data_0
   \<and> int (length (subset_items \<lparr>base = ex_data_0, indices = [3, 1]\<rparr>))
       = round (2/5 * real (length ex_data_0))
   \<and> length ex_data_0 = 5
   \<and> pca ex_pca_kernel ex_perm_5 ex_data (Some 1) (Some (2/5)) 2 True
       = Inr (ArrayList [[[1/3], [-(5/3)], [1/3]], [[-(5/3)], [-(2/3)]]], - (8/9), Some (- (100/9)))
   \<and> (\<exists>data_0 v t train_loader test_loader model.
         create_dataset ex_data 0 = Inr data_0
       \<and> random_split ex_perm_5 data_0 (2/5) = Inr (v, t)
       \<and> DataLoader (subset_items t) 2 = Inr train_loader
       \<and> DataLoader (subset_items v) 2 = Inr test_loader
       \<and> PCA_fit ex_pca_kernel train_loader (Some 1) (Some test_loader)
           = Inr (model, - (8/9), Some (- (100/9))))
   \<and> tica ex_tica_kernel ex_perm_3 ex_data (Some 1) 1 True False (Some (2/5)) 2 True
       = Inr (ArrayList [[[-1], [1], [-1]], [[1], [0]]], 1, Some 0)
   \<and> (\<exists>data_lag v t train_loader test_loader model.
         create_dataset ex_data 1 = Inr data_lag
       \<and> random_split ex_perm_3 data_lag (2/5) = Inr (v, t)
       \<and> DataLoader (subset_items t) 2 = Inr train_loader
       \<and> DataLoader (subset_items v) 2 = Inr test_loader
       \<and> TICA_fit ex_tica_kernel True False train_loader (Some 1) (Some test_loader)
           = Inr (model, 1, Some 0))
   \<and> ae counting_kernel ex_perm_3 ex_data (Some 1) 1 1 (Some (2/5)) 2 True Map.empty
       = Inr (ArrayList [[[3/2], [-(1/2)], [3/2]], [[-(1/2)], [1/2]]], 2, Some 1)
   \<and> (\<exists>data_lag v t train_loader test_loader model0 model.
         create_dataset ex_data 1 = Inr data_lag
       \<and> random_split ex_perm_3 data_lag (2/5) = Inr (v, t)
       \<and> DataLoader (subset_items t) 2 = Inr train_loader
       \<and> DataLoader (subset_items v) 2 = Inr test_loader
       \<and> AE_fit counting_kernel model0 train_loader 1 (Some test_loader)
           = Inr (model, 2, Some 1))"
proof -
  have n: "length ex_data_0 = 5" by (simp add: ex_data_0_def)
  have "{0..<5::nat} = {0, 1, 2, 3, 4}" by auto
  then have perm: "is_permutation ex_perm_5 (length ex_data_0)"
    by (auto simp: is_permutation_def ex_perm_5_def n)
  note s = split_partitions_dataset [THEN conjunct1, THEN mp, OF conjI [OF perm ex_split_0]]
  note p = split_partitions_dataset
    [THEN conjunct2, THEN conjunct2, THEN conjunct1, THEN mp, OF ex_pca_split]
  note t = split_partitions_dataset
    [THEN conjunct2, THEN conjunct2, THEN conjunct2, THEN conjunct1, THEN mp, OF ex_tica_split]
  note a = split_partitions_dataset
    [THEN conjunct2, THEN conjunct2, THEN conjunct2, THEN conjunct2, THEN mp, OF ex_ae_split]
  from s have s': "set [3, 1] \<inter> set [4, 0, 2] = ({} :: nat set)"
    "set [3, 1] \<union> set [4, 0, 2] = {0..<length ex_data_0}"
    "length (subset_items \<lparr>base = ex_data_0, indices = [3, 1]\<rparr>)
       + length (subset_items \<lparr>base = ex_data_0, indices = [4, 0, 2]\<rparr>) = length ex_data_0"
    "int (length (subset_items \<lparr>base = ex_data_0, indices = [3, 1]\<rparr>))
       = round (2/5 * real (length ex_data_0))"
    by simp_all
  from perm ex_split_0 s' n p t a ex_pca_split ex_tica_split ex_ae_split
  show ?thesis by (intro conjI) assumption+
qed

section \<open>Configuration and input width of the autoencoder\<close>

text \<open>
  C6, as the specification states it: the configuration of \<open>ae\<close> has exactly the
  documented fields, and an unrecognized name is not accepted. The code merges with
  \<^verbatim>\<open>dict.update\<close>: the unrecognized name \<open>verbose\<close> ends up in the dictionary that is
  handed to the constructor.
\<close>

theorem ae_args_accepts_unrecognized:
  "ae_args [''verbose'' \<mapsto> PyBool True] ''verbose'' = Some (PyBool True)
   \<and> ''verbose'' \<notin> recognized_options
   \<and> dom (ae_args [''verbose'' \<mapsto> PyBool True]) \<noteq> recognized_options"
proof -
  have 1: "ae_args [''verbose'' \<mapsto> PyBool True] ''verbose'' = Some (PyBool True)"
    by (simp add: ae_args_def)
  have 2: "''verbose'' \<notin> recognized_options"
    by (simp add: recognized_options_def)
  from 1 have "''verbose'' \<in> dom (ae_args [''verbose'' \<mapsto> PyBool True])"
    by blast
  with 2 have "dom (ae_args [''verbose'' \<mapsto> PyBool True]) \<noteq> recognized_options"
    by blast
  with 1 2 show ?thesis by blast
qed

text \<open>
  C6, amended: the configuration of \<open>ae\<close> is a dictionary. Its defaults are the eight
  documented entries (\<open>hid_size = [100]\<close>, a dropout layer of rate 0.5, a LeakyReLU
  activation, \<open>lat_activation = None\<close>, \<open>batch_normalization = None\<close>, \<open>bias = True\<close>,
  \<open>lr = 0.001\<close>, \<open>cuda = False\<close>); the caller's keyword arguments are merged key by key,
  a supplied key replacing its default and an unsupplied key keeping it, and every
  other supplied key is added to the dictionary.
\<close>

theorem ae_args_merge:
  "ae_args kw k = (case kw k of Some v \<Rightarrow> Some v | None \<Rightarrow> ae_defaults k)
   \<and> dom (ae_args kw) = recognized_options \<union> dom kw
   \<and> ae_defaults ''hid_size'' = Some (PyIntList [100])
   \<and> ae_defaults ''dropout'' = Some (Dropout (1/2))
   \<and> ae_defaults ''activation'' = Some LeakyReLU
   \<and> ae_defaults ''lat_activation'' = Some PyNone
   \<and> ae_defaults ''batch_normalization'' = Some PyNone
   \<and> ae_defaults ''bias'' = Some (PyBool True)
   \<and> ae_defaults ''lr'' = Some (PyFloat (1/1000))
   \<and> ae_defaults ''cuda'' = Some (PyBool False)"
proof -
  have "ae_args kw k = (case kw k of Some v \<Rightarrow> Some v | None \<Rightarrow> ae_defaults k)"
    by (simp add: ae_args_def map_add_def split: option.split)
  moreover have "dom (ae_args kw) = recognized_options \<union> dom kw"
    by (simp add: ae_args_def dom_ae_defaults Un_commute)
  moreover have "ae_defaults ''hid_size'' = Some (PyIntList [100])"
    and "ae_defaults ''dropout'' = Some (Dropout (1/2))"
    and "ae_defaults ''activation'' = Some LeakyReLU"
    and "ae_defaults ''lat_activation'' = Some PyNone"
    and "ae_defaults ''batch_normalization'' = Some PyNone"
    and "ae_defaults ''bias'' = Some (PyBool True)"
    and "ae_defaults ''lr'' = Some (PyFloat (1/1000))"
    and "ae_defaults ''cuda'' = Some (PyBool False)"
    by (simp_all add: ae_defaults_def)
  ultimately show ?thesis by simp
qed

text \<open>
  C9. When \<open>ae\<close> is called with a list of series, the input width of the encoder is the
  column count of the first series (the fallback \<^verbatim>\<open>data[0].shape[1]\<close> after the
  \<open>AttributeError\<close> of \<^verbatim>\<open>data.shape[1]\<close>); the series after the first one, whatever
  their column counts, do not change the width computed at this step, and this width is
  the one the model is constructed with.
\<close>

theorem ae_size_first_series:
  "ae_size (Multiple (a # others)) = Inr (shape1 a)
   \<and> ae_size (Multiple (a # others)) = ae_size (Multiple (a # others'))
   \<and> ae_size (Multiple [a, b\<lparr>shape1 := shape1 a + 1\<rparr>]) = Inr (shape1 a)
   \<and> (ae Ka perm (Multiple (a # others)) tdim lag n vs B w kw = Inr (out, ltr, lte) \<longrightarrow>
        (\<exists>model. AE Ka (shape1 a) tdim (ae_args kw) = Inr model \<and> in_size model = shape1 a))"
proof (intro conjI impI)
  show "ae_size (Multiple (a # others)) = Inr (shape1 a)"
    and "ae_size (Multiple (a # others)) = ae_size (Multiple (a # others'))"
    and "ae_size (Multiple [a, b\<lparr>shape1 := shape1 a + 1\<rparr>]) = Inr (shape1 a)"
    by (simp_all add: ae_size_def)
next
  assume "ae Ka perm (Multiple (a # others)) tdim lag n vs B w kw = Inr (out, ltr, lte)"
  then obtain sz model where "ae_size (Multiple (a # others)) = Inr sz"
    and m: "AE Ka sz tdim (ae_args kw) = Inr model"
    by (auto simp: ae_Inr)
  then have "sz = shape1 a" by (simp add: ae_size_def)
  with m show "\<exists>model. AE Ka (shape1 a) tdim (ae_args kw) = Inr model \<and> in_size model = shape1 a"
    by (auto simp: AE_def ebind_eq_Inr)
qed

text \<open>The example: the first series has one column.\<close>

theorem ae_size_first_series_witness:
  "ae counting_kernel [] (Multiple [ex_series_a, ex_series_b]) (Some 1) 1 1 None 2 False Map.empty
     = Inr (ArrayList [[[4], [0], [4]], [[0], [2]]], 3, None)
   \<and> (\<exists>model. AE counting_kernel (shape1 ex_series_a) (Some 1) (ae_args Map.empty) = Inr model
         \<and> in_size model = shape1 ex_series_a)
   \<and> shape1 ex_series_a = 1"
  using ae_size_first_series
    [THEN conjunct2, THEN conjunct2, THEN conjunct2, THEN mp, OF ex_ae_plain [unfolded ex_data_def]]
    ex_ae_plain [unfolded ex_data_def]
  by (simp add: ex_series_a_def)

section \<open>Whitening\<close>

text \<open>
  C8. For every call of \<open>pca\<close>, \<open>tica\<close> or \<open>ae\<close> that returns, the whitening
  post-processor is applied to the output of the model's transform exactly when the
  argument \<open>whiten\<close> is true: then the result is the reassembled whitened output, and
  otherwise it is the reassembled output of the transform itself, not rescaled.
\<close>

theorem whitening_iff_requested:
  "(pca Kp perm d tdim vs B w = Inr (out, ltr, lte) \<longrightarrow>
      (\<exists>data_0 train test model loader t.
         create_dataset d 0 = Inr data_0
       \<and> PCA_fit Kp train tdim test = Inr (model, ltr, lte)
       \<and> DataLoader data_0 B = Inr loader
       \<and> linear_transform model loader = Inr t
       \<and> (if w then \<exists>u. whiten_data t = Inr u \<and> out = reassemble d u
           else out = reassemble d t)))
   \<and> (tica Kt perm d tdim lag km sy vs B w = Inr (out, ltr, lte) \<longrightarrow>
      (\<exists>data_0 train test model loader t.
         create_dataset d 0 = Inr data_0
       \<and> TICA_fit Kt km sy train tdim test = Inr (model, ltr, lte)
       \<and> DataLoader data_0 B = Inr loader
       \<and> linear_transform model loader = Inr t
       \<and> (if w then \<exists>u. whiten_data t = Inr u \<and> out = reassemble d u
           else out = reassemble d t)))
   \<and> (ae Ka perm d tdim lag n vs B w kw = Inr (out, ltr, lte) \<longrightarrow>
      (\<exists>data_0 train test model0 model loader t.
         create_dataset d 0 = Inr data_0
       \<and> AE_fit Ka model0 train n test = Inr (model, ltr, lte)
       \<and> DataLoader data_0 B = Inr loader
       \<and> AE_transform Ka model loader = Inr t
       \<and> (if w then \<exists>u. whiten_data t = Inr u \<and> out = reassemble d u
           else out = reassemble d t)))"
proof (intro conjI impI)
  assume "pca Kp perm d tdim vs B w = Inr (out, ltr, lte)"
  then obtain data_0 train test model where a: "create_dataset d 0 = Inr data_0"
    "PCA_fit Kp train tdim test = Inr (model, ltr, lte)"
    "api_transform (linear_transform model) d data_0 B w = Inr out"
    by (auto simp: pca_Inr)
  from api_transform_whiten_cases [OF a(3)] a(1,2)
  show "\<exists>data_0 train test model loader t.
         create_dataset d 0 = Inr data_0
       \<and> PCA_fit Kp train tdim test = Inr (model, ltr, lte)
       \<and> DataLoader data_0 B = Inr loader
       \<and> linear_transform model loader = Inr t
       \<and> (if w then \<exists>u. whiten_data t = Inr u \<and> out = reassemble d u
           else out = reassemble d t)"
    by blast
next
  assume "tica Kt perm d tdim lag km sy vs B w = Inr (out, ltr, lte)"
  then obtain data_0 train test model where a: "create_dataset d 0 = Inr data_0"
    "TICA_fit Kt km sy train tdim test = Inr (model, ltr, lte)"
    "api_transform (linear_transform model) d data_0 B w = Inr out"
    by (auto simp: tica_Inr)
  from api_transform_whiten_cases [OF a(3)] a(1,2)
  show "\<exists>data_0 train test model loader t.
         create_dataset d 0 = Inr data_0
       \<and> TICA_fit Kt km sy train tdim test = Inr (model, ltr, lte)
       \<and> DataLoader data_0 B = Inr loader
       \<and> linear_transform model loader = Inr t
       \<and> (if w then \<exists>u. whiten_data t = Inr u \<and> out = reassemble d u
           else out = reassemble d t)"
    by blast
next
  assume "ae Ka perm d tdim lag n vs B w kw = Inr (out, ltr, lte)"
  then obtain data_0 train test model0 model where a: "create_dataset d 0 = Inr data_0"
    "AE_fit Ka model0 train n test = Inr (model, ltr, lte)"
    "api_transform (AE_transform Ka model) d data_0 B w = Inr out"
    by (auto simp: ae_Inr)
  from api_transform_whiten_cases [OF a(3)] a(1,2)
  show "\<exists>data_0 train test model0 model loader t.
         create_dataset d 0 = Inr data_0
       \<and> AE_fit Ka model0 train n test = Inr (model, ltr, lte)
       \<and> DataLoader data_0 B = Inr loader
       \<and> AE_transform Ka model loader = Inr t
       \<and> (if w then \<exists>u. whiten_data t = Inr u \<and> out = reassemble d u
           else out = reassemble d t)"
    by blast
qed

text \<open>The runs of the example with whitening, and one without.\<close>

theorem whitening_iff_requested_witness:
  "pca ex_pca_kernel ex_perm_5 ex_data (Some 1) (Some (2/5)) 2 True
     = Inr (ArrayList [[[1/3], [-(5/3)], [1/3]], [[-(5/3)], [-(2/3)]]], - (8/9), Some (- (100/9)))
   \<and> (\<exists>t u. whiten_data t = Inr u
         \<and> ArrayList [[[1/3], [-(5/3)], [1/3]], [[-(5/3)], [-(2/3)]]] = reassemble ex_data u)
   \<and> tica ex_tica_kernel ex_perm_3 ex_data (Some 1) 1 True False (Some (2/5)) 2 True
     = Inr (ArrayList [[[-1], [1], [-1]], [[1], [0]]], 1, Some 0)
   \<and> (\<exists>t u. whiten_data t = Inr u
         \<and> ArrayList [[[-1], [1], [-1]], [[1], [0]]] = reassemble ex_data u)
   \<and> ae counting_kernel ex_perm_3 ex_data (Some 1) 1 1 (Some (2/5)) 2 True Map.empty
     = Inr (ArrayList [[[3/2], [-(1/2)], [3/2]], [[-(1/2)], [1/2]]], 2, Some 1)
   \<and> (\<exists>t u. whiten_data t = Inr u
         \<and> ArrayList [[[3/2], [-(1/2)], [3/2]], [[-(1/2)], [1/2]]] = reassemble ex_data u)
   \<and> pca ex_pca_kernel [] ex_data (Some 1) None 2 False
     = Inr (ArrayList [[[2], [-2], [2]], [[-2], [0]]], - (16/5), None)
   \<and> (\<exists>model loader t. linear_transform model loader = Inr t
         \<and> ArrayList [[[2], [-2], [2]], [[-2], [0]]] = reassemble ex_data t)
   \<and> whiten_data [[2/3], [-(10/3)], [2/3], [-(10/3)], [-(4/3)]]
     = Inr [[1/3], [-(5/3)], [1/3], [-(5/3)], [-(2/3)]]"
proof -
  from whitening_iff_requested [THEN conjunct1, THEN mp, OF ex_pca_split]
  have p: "\<exists>t u. whiten_data t = Inr u
         \<and> ArrayList [[[1/3], [-(5/3)], [1/3]], [[-(5/3)], [-(2/3)]]] = reassemble ex_data u"
    by simp blast
  from whitening_iff_requested [THEN conjunct2, THEN conjunct1, THEN mp, OF ex_tica_split]
  have t: "\<exists>t u. whiten_data t = Inr u
         \<and> ArrayList [[[-1], [1], [-1]], [[1], [0]]] = reassemble ex_data u"
    by simp blast
  from whitening_iff_requested [THEN conjunct2, THEN conjunct2, THEN mp, OF ex_ae_split]
  have a: "\<exists>t u. whiten_data t = Inr u
         \<and> ArrayList [[[3/2], [-(1/2)], [3/2]], [[-(1/2)], [1/2]]] = reassemble ex_data u"
    by simp blast
  from whitening_iff_requested [THEN conjunct1, THEN mp, OF ex_pca_plain]
  have q: "\<exists>model loader t. linear_transform model loader = Inr t
         \<and> ArrayList [[[2], [-2], [2]], [[-2], [0]]] = reassemble ex_data t"
    by simp blast
  from p t a q ex_pca_split ex_tica_split ex_ae_split ex_pca_plain ex_whiten_pca
  show ?thesis by (intro conjI) assumption+
qed

text \<open>
  C10. When \<open>whiten\<close> is true and the input is a list of series, the whitening is applied
  to the whole transformed matrix before it is cut into the chunks of the series: the
  returned chunks are slices of the whitened matrix, their concatenation is that
  matrix, and each of its columns has unit sample variance over all series pooled
  together (for a transformed matrix whose rows have one width). A single series of the
  result need not have unit variance.
\<close>

theorem whitening_before_slicing:
  assumes "api_transform model_transform (Multiple ds) data_0 B True = Inr out"
  shows "\<exists>loader t u.
           DataLoader data_0 B = Inr loader
         \<and> model_transform loader = Inr t
         \<and> whiten_data t = Inr u
         \<and> out = ArrayList (collect u 0 (map shape0 ds))
         \<and> (length t = sum_list (map shape0 ds) \<longrightarrow> concat (collect u 0 (map shape0 ds)) = u)
         \<and> ((\<forall>r\<in>set t. length r = width t) \<longrightarrow>
              (\<forall>j<width t. sample_variance (column j u) = 1))"
proof -
  from api_transform_whiten_cases [OF assms] obtain loader t u
    where a: "DataLoader data_0 B = Inr loader" "model_transform loader = Inr t"
      "whiten_data t = Inr u" "out = reassemble (Multiple ds) u"
    by auto
  have "concat (collect u 0 (map shape0 ds)) = u" if "length t = sum_list (map shape0 ds)"
    using that length_whiten [OF a(3)] by (simp add: concat_collect)
  moreover have "\<forall>j<width t. sample_variance (column j u) = 1"
    if "\<forall>r\<in>set t. length r = width t"
    using whiten_unit_variance [OF a(3) that] by blast
  ultimately show ?thesis using a by (auto simp: collect_reassemble)
qed

text \<open>
  The example: the pooled column of the whitened output has sample variance 1, the
  column of its first series alone has sample variance 4/3.
\<close>

theorem whitening_before_slicing_witness:
  "api_transform (linear_transform ex_pca_model_split) (Multiple [ex_series_a, ex_series_b])
     ex_data_0 2 True
     = Inr (ArrayList [[[1/3], [-(5/3)], [1/3]], [[-(5/3)], [-(2/3)]]])
   \<and> whiten_data [[2/3], [-(10/3)], [2/3], [-(10/3)], [-(4/3)]]
       = Inr [[1/3], [-(5/3)], [1/3], [-(5/3)], [-(2/3)]]
   \<and> list_all (\<lambda>r. length r = width [[2/3], [-(10/3)], [2/3], [-(10/3)], [-(4/3)]])
         [[2/3], [-(10/3)], [2/3], [-(10/3)], [-(4/3)]]
   \<and> sample_variance (column 0 [[1/3], [-(5/3)], [1/3], [-(5/3)], [-(2/3)]]) = 1
   \<and> concat [[[1/3], [-(5/3)], [1/3]], [[-(5/3)], [-(2/3)]]]
       = ([[1/3], [-(5/3)], [1/3], [-(5/3)], [-(2/3)]] :: matrix)
   \<and> sample_variance (column 0 [[1/3], [-(5/3)], [1/3]]) = 4/3"
proof -
  let ?t = "[[2/3], [-(10/3)], [2/3], [-(10/3)], [-(4/3)]] :: matrix"
  let ?u = "[[1/3], [-(5/3)], [1/3], [-(5/3)], [-(2/3)]] :: matrix"
  have run: "api_transform (linear_transform ex_pca_model_split)
               (Multiple [ex_series_a, ex_series_b]) ex_data_0 2 True
             = Inr (ArrayList [[[1/3], [-(5/3)], [1/3]], [[-(5/3)], [-(2/3)]]])"
    using ex_api [of "linear_transform ex_pca_model_split" 2 True
        "1/3" "-(5/3)" "1/3" "-(5/3)" "-(2/3)"]
    by (simp add: transformed_data_def ex_loader ex_pca_transform_split ex_whiten_pca ex_data_def)
  from whitening_before_slicing [OF run] obtain loader t u
    where l: "DataLoader ex_data_0 2 = Inr loader"
      and t: "linear_transform ex_pca_model_split loader = Inr t"
      and u: "whiten_data t = Inr u"
      and v: "(\<forall>r\<in>set t. length r = width t) \<longrightarrow> (\<forall>j<width t. sample_variance (column j u) = 1)"
    by blast
  from l t have "t = ?t" by (auto simp: ex_loader ex_pca_transform_split)
  with u have "u = ?u" by (simp add: ex_whiten_pca)
  have rect: "\<forall>r\<in>set ?t. length r = width ?t" by (simp add: width_def)
  with v \<open>t = ?t\<close> \<open>u = ?u\<close> have "\<forall>j<width ?t. sample_variance (column j ?u) = 1" by simp
  then have pooled: "sample_variance (column 0 ?u) = 1" by (simp add: width_def)
  have alone: "sample_variance (column 0 [[1/3], [-(5/3)], [1/3]]) = 4/3"
    by (simp add: column_def sample_variance_def avg_def power2_eq_square)
  from rect have "list_all (\<lambda>r. length r = width ?t) ?t" unfolding list_all_iff .
  with run ex_whiten_pca pooled alone show ?thesis by simp
qed

end
